theory Spec2Isabelle
  imports Complex_Main
begin

section \<open>The notebook \<open>4-rpmd.ipynb\<close> as HOL functions\<close>

text \<open>
  The notebook computes with Python floats and numpy's float64 and complex128. They are
  modelled here by the real and the complex numbers: arithmetic is exact, so rounding,
  overflow and the special values \<open>inf\<close> and \<open>nan\<close> are outside the model. Python's
  \<open>int\<close> is \<open>int\<close>. An exception is a value \<open>Inl e\<close> of a sum type.
\<close>

datatype error = ZeroDivisionError | IndexError | ValueError | NameError

subsection \<open>numpy values\<close>

text \<open>
  A numpy operand is a scalar or an array, the array given by its shape and its
  elements in row-major order. A binary operation broadcasts a scalar against an array
  and works element by element on two arrays of one shape. In \<open>Cqq_std\<close> and \<open>Cqq_kubo\<close>
  every array is computed element by element from the argument \<open>t\<close>, so two arrays that
  meet always have \<open>t\<close>'s shape and as many elements (lemmas \<open>np_add_elementwise\<close>,
  \<open>Cqq_std_elementwise\<close> and \<open>Cqq_kubo_elementwise\<close>). Two arrays of different shapes,
  which numpy broadcasts further or rejects, do not arise; the last equation of \<open>np_op\<close>
  is meant for equal shapes only.
\<close>

datatype 'a np = Scalar 'a | Array "nat list" "'a list"

fun np_op :: "('a \<Rightarrow> 'b \<Rightarrow> 'c) \<Rightarrow> 'a np \<Rightarrow> 'b np \<Rightarrow> 'c np" where
  "np_op h (Scalar a) (Scalar b) = Scalar (h a b)"
| "np_op h (Scalar a) (Array sh ys) = Array sh (map (h a) ys)"
| "np_op h (Array sh xs) (Scalar b) = Array sh (map (\<lambda>x. h x b) xs)"
| "np_op h (Array sh xs) (Array sh' ys) = Array sh (map2 h xs ys)"

definition np_add :: "complex np \<Rightarrow> complex np \<Rightarrow> complex np" where
  "np_add = np_op (+)"

definition np_mul :: "complex np \<Rightarrow> complex np \<Rightarrow> complex np" where
  "np_mul = np_op (*)"

definition np_div :: "complex np \<Rightarrow> complex np \<Rightarrow> complex np" where
  "np_div = np_op (/)"

definition np_exp :: "complex np \<Rightarrow> complex np" where
  "np_exp = map_np exp"

text \<open>A float operand meeting a complex one is promoted to complex.\<close>

definition np_complex :: "real np \<Rightarrow> complex np" where
  "np_complex = map_np complex_of_real"

definition cscalar :: "real \<Rightarrow> complex np" where
  "cscalar x = Scalar (complex_of_real x)"

text \<open>\<open>t * 0\<close>, the value both evaluators return when \<open>i_max\<close> is not positive.\<close>

definition np_times_zero :: "real np \<Rightarrow> complex np" where
  "np_times_zero t = np_complex (np_op (*) t (Scalar 0))"

text \<open>
  Reading \<open>a[k]\<close> from a one-dimensional array: a negative \<open>k\<close> counts from the end,
  and an index outside the array raises \<open>IndexError\<close>.
\<close>

definition np_getitem :: "'a list \<Rightarrow> int \<Rightarrow> error + 'a" where
  "np_getitem a k =
     (if 0 \<le> k \<and> k < int (length a) then Inr (a ! nat k)
      else if k < 0 \<and> - int (length a) \<le> k then Inr (a ! nat (int (length a) + k))
      else Inl IndexError)"

text \<open>
  \<open>np.linspace(start, stop, num)\<close>: \<open>num\<close> evenly spaced points from \<open>start\<close> to
  \<open>stop\<close>, both included; the single point \<open>start\<close> for \<open>num = 1\<close>, no point for
  \<open>num = 0\<close>, and \<open>ValueError\<close> for a negative \<open>num\<close>.
\<close>

definition linspace :: "real \<Rightarrow> real \<Rightarrow> int \<Rightarrow> error + real list" where
  "linspace start stop num =
     (if num < 0 then Inl ValueError
      else if num = 1 then Inr [start]
      else Inr (map (\<lambda>k. start + real k * ((stop - start) / real_of_int (num - 1)))
                  [0..<nat num]))"

subsection \<open>Exercise 1: eigenstates of the harmonic oscillator\<close>

text \<open>The reduced units of the notebook: \<open>m = 1\<close>, \<open>hbar = 1\<close>, \<open>beta = 1\<close>.\<close>

definition m :: real where
  "m = 1"

definition hbar :: real where
  "hbar = 1"

definition beta :: real where
  "beta = 1"

text \<open>\<open>Ei(i, omega=1, return_zero=False)\<close>.\<close>

definition Ei :: "int \<Rightarrow> real \<Rightarrow> bool \<Rightarrow> real" where
  "Ei i omega return_zero =
     (if return_zero then (real_of_int i + 1 / 2) * hbar * omega
      else real_of_int i * hbar * omega)"

text \<open>
  \<open>qij(i, j, omega=1)\<close>. The division \<open>hbar / (2 * m * omega)\<close> raises
  \<open>ZeroDivisionError\<close> for \<open>omega = 0\<close>. For a negative \<open>omega\<close> or a negative index
  under the root numpy returns \<open>nan\<close>, which the reals do not have: the model is the
  function for \<open>omega > 0\<close> and indices \<open>\<ge> 0\<close>.
\<close>

definition qij :: "int \<Rightarrow> int \<Rightarrow> real \<Rightarrow> error + real" where
  "qij i j omega =
     (if i = j - 1 then
        (if 2 * m * omega = 0 then Inl ZeroDivisionError
         else Inr (sqrt (hbar / (2 * m * omega)) * sqrt (real_of_int j)))
      else if i = j + 1 then
        (if 2 * m * omega = 0 then Inl ZeroDivisionError
         else Inr (sqrt (hbar / (2 * m * omega)) * sqrt (real_of_int (j + 1))))
      else Inr 0)"

subsection \<open>\<open>Cqq_std\<close>\<close>

text \<open>
  The summand of the inner loop,
  \<open>np.exp(-1j * (Ei(i, omega) - Ei(j, omega)) * t / hbar)\<close>.
\<close>

definition phase_factor :: "real np \<Rightarrow> real \<Rightarrow> int \<Rightarrow> int \<Rightarrow> complex np" where
  "phase_factor t omega i j =
     np_exp (np_div
       (np_mul (Scalar (- \<i> * complex_of_real (Ei i omega False - Ei j omega False)))
               (np_complex t))
       (cscalar hbar))"

text \<open>
  The loop \<open>for j in range(0, i + 2)\<close> with its accumulator \<open>sumj\<close>. Both matrix
  elements are called without \<open>omega\<close>, that is with the default \<open>omega = 1\<close>.
\<close>

fun sumj_loop :: "real np \<Rightarrow> real \<Rightarrow> int \<Rightarrow> int list \<Rightarrow> complex np \<Rightarrow> error + complex np" where
  "sumj_loop t omega i [] sumj = Inr sumj"
| "sumj_loop t omega i (j # js) sumj =
     (case qij i j 1 of
        Inl e \<Rightarrow> Inl e
      | Inr qa \<Rightarrow>
          (case qij j i 1 of
             Inl e \<Rightarrow> Inl e
           | Inr qb \<Rightarrow>
               sumj_loop t omega i js
                 (np_add sumj
                    (np_mul (np_mul (phase_factor t omega i j) (cscalar qa)) (cscalar qb)))))"

text \<open>The loop \<open>for i in range(i_max + 1)\<close> with its accumulators \<open>rc\<close> and \<open>rz\<close>.\<close>

fun std_loop :: "real np \<Rightarrow> real \<Rightarrow> int list \<Rightarrow> complex np \<times> real \<Rightarrow> error + complex np \<times> real" where
  "std_loop t omega [] acc = Inr acc"
| "std_loop t omega (i # is) acc =
     (case sumj_loop t omega i [0..i + 1] (Scalar 0) of
        Inl e \<Rightarrow> Inl e
      | Inr sumj \<Rightarrow>
          std_loop t omega is
            (np_add (fst acc) (np_mul sumj (cscalar (exp (- beta * Ei i omega False)))),
             snd acc + exp (- beta * Ei i omega False)))"

definition Cqq_std :: "real np \<Rightarrow> real \<Rightarrow> int \<Rightarrow> error + complex np" where
  "Cqq_std t omega i_max =
     (case std_loop t omega [0..i_max] (Scalar 0, 0) of
        Inl e \<Rightarrow> Inl e
      | Inr acc \<Rightarrow>
          if i_max > 0 then Inr (np_div (fst acc) (cscalar (snd acc)))
          else Inr (np_times_zero t))"

subsection \<open>\<open>Cqq_kubo\<close>\<close>

text \<open>
  \<open>lterm = np.sum(np.exp(-lgrid * (Ei(j) - Ei(i)))) * (lgrid[1] - lgrid[0]) / beta\<close>:
  the sum is taken first, then \<open>lgrid[1]\<close> is read, then \<open>lgrid[0]\<close>. The energies are
  called without \<open>omega\<close>.
\<close>

definition lterm :: "real list \<Rightarrow> int \<Rightarrow> int \<Rightarrow> error + real" where
  "lterm lgrid i j =
     (let s = sum_list (map (\<lambda>l. exp (- l * (Ei j 1 False - Ei i 1 False))) lgrid) in
      case np_getitem lgrid 1 of
        Inl e \<Rightarrow> Inl e
      | Inr g1 \<Rightarrow>
          (case np_getitem lgrid 0 of
             Inl e \<Rightarrow> Inl e
           | Inr g0 \<Rightarrow> Inr (s * (g1 - g0) / beta)))"

text \<open>The loop \<open>for j in range(i + 2)\<close>, which adds to \<open>rcqq\<close> directly.\<close>

fun kubo_j_loop :: "real np \<Rightarrow> real list \<Rightarrow> int \<Rightarrow> int list \<Rightarrow> complex np \<Rightarrow> error + complex np" where
  "kubo_j_loop t lgrid i [] rcqq = Inr rcqq"
| "kubo_j_loop t lgrid i (j # js) rcqq =
     (case lterm lgrid i j of
        Inl e \<Rightarrow> Inl e
      | Inr lt \<Rightarrow>
          (case qij i j 1 of
             Inl e \<Rightarrow> Inl e
           | Inr qa \<Rightarrow>
               (case qij j i 1 of
                  Inl e \<Rightarrow> Inl e
                | Inr qb \<Rightarrow>
                    kubo_j_loop t lgrid i js
                      (np_add rcqq
                         (np_mul
                            (np_mul
                               (np_mul (cscalar (lt * exp (- beta * Ei i 1 False)))
                                       (phase_factor t 1 i j))
                               (cscalar qa))
                            (cscalar qb))))))"

fun kubo_loop :: "real np \<Rightarrow> real list \<Rightarrow> int list \<Rightarrow> complex np \<times> real \<Rightarrow> error + complex np \<times> real" where
  "kubo_loop t lgrid [] acc = Inr acc"
| "kubo_loop t lgrid (i # is) acc =
     (case kubo_j_loop t lgrid i [0..i + 1] (fst acc) of
        Inl e \<Rightarrow> Inl e
      | Inr rcqq \<Rightarrow> kubo_loop t lgrid is (rcqq, snd acc + exp (- beta * Ei i 1 False)))"

text \<open>
  \<open>Cqq_kubo(t, omega=1, i_max=100, lgrid=1000)\<close>. The body never reads \<open>omega\<close>.
\<close>

definition Cqq_kubo :: "real np \<Rightarrow> real \<Rightarrow> int \<Rightarrow> int \<Rightarrow> error + complex np" where
  "Cqq_kubo t omega i_max lgrid =
     (case linspace 0 beta lgrid of
        Inl e \<Rightarrow> Inl e
      | Inr grid \<Rightarrow>
          (case kubo_loop t grid [0..i_max] (Scalar 0, 0) of
             Inl e \<Rightarrow> Inl e
           | Inr acc \<Rightarrow>
               if i_max > 0 then Inr (np_div (fst acc) (cscalar (snd acc)))
               else Inr (np_times_zero t)))"

subsection \<open>Exercise 2: the velocity-Verlet loop\<close>

text \<open>The force \<open>f(q)\<close> of the harmonic oscillator in reduced units.\<close>

definition f :: "real \<Rightarrow> real" where
  "f q = - q"

text \<open>
  \<open>int(x)\<close> of a float truncates towards zero.
\<close>

definition py_int :: "real \<Rightarrow> int" where
  "py_int x = (if 0 \<le> x then \<lfloor>x\<rfloor> else \<lceil>x\<rceil>)"

text \<open>
  The three assignments of one pass of the loop, on the pair \<open>(p, q)\<close>:
  \<open>p = p + (f(q)) * dt / 2\<close>, \<open>q = q + p * dt\<close>, \<open>p = p + (f(q)) * dt / 2\<close>.
\<close>

definition verlet_step :: "real \<Rightarrow> real \<times> real \<Rightarrow> real \<times> real" where
  "verlet_step dt s =
     (let p1 = fst s + f (snd s) * dt / 2;
          q1 = snd s + p1 * dt;
          p2 = p1 + f q1 * dt / 2
      in (p2, q1))"

text \<open>The three lists a trajectory is stored as.\<close>

record traj =
  plist :: "real list"
  qlist :: "real list"
  flist :: "real list"

text \<open>
  \<open>for i in range(steps)\<close>: the first argument counts the passes left; each pass
  updates \<open>(p, q)\<close> and appends \<open>p\<close>, \<open>q\<close> and \<open>f(q)\<close> to the lists.
\<close>

fun verlet_loop :: "nat \<Rightarrow> real \<Rightarrow> real \<times> real \<Rightarrow> traj \<Rightarrow> (real \<times> real) \<times> traj" where
  "verlet_loop 0 dt s tr = (s, tr)"
| "verlet_loop (Suc n) dt s tr =
     (let s' = verlet_step dt s in
      verlet_loop n dt s'
        (tr\<lparr>plist := plist tr @ [fst s'],
            qlist := qlist tr @ [snd s'],
            flist := flist tr @ [f (snd s')]\<rparr>))"

text \<open>
  The body of both ensemble loops from the empty lists on: \<open>range(steps)\<close> is empty
  for \<open>steps \<le> 0\<close>.
\<close>

definition run_traj :: "real \<Rightarrow> real \<Rightarrow> real \<Rightarrow> int \<Rightarrow> traj" where
  "run_traj p0 q0 dt steps =
     snd (verlet_loop (nat steps) dt (p0, q0) \<lparr>plist = [], qlist = [], flist = []\<rparr>)"

text \<open>
  One member of \<open>traj_ens\<close>: \<open>steps = int(tmax / dt)\<close>, then the loop from
  \<open>(p0, q0)\<close>. The notebook fixes \<open>dt = 0.01\<close> and \<open>tmax = 100\<close>; here they are
  arguments. The float division raises \<open>ZeroDivisionError\<close> for \<open>dt = 0\<close>.
\<close>

definition traj_ens_member :: "real \<Rightarrow> real \<Rightarrow> real \<Rightarrow> real \<Rightarrow> error + traj" where
  "traj_ens_member p0 q0 dt tmax =
     (if dt = 0 then Inl ZeroDivisionError
      else Inr (run_traj p0 q0 dt (py_int (tmax / dt))))"

text \<open>\<open>xs[-1]\<close> of a Python list: the last element, \<open>IndexError\<close> on the empty list.\<close>

definition py_last :: "'a list \<Rightarrow> error + 'a" where
  "py_last xs = (if xs = [] then Inl IndexError else Inr (last xs))"

text \<open>
  One member of \<open>inv_traj_ens\<close>: the loop is run again, for the same \<open>steps\<close> and
  \<open>dt\<close>, from \<open>p = -traj_ens[j]['plist'][-1]\<close> and \<open>q = traj_ens[j]['qlist'][-1]\<close>.
  The name \<open>f\<close> is taken to be bound to the force defined above.
\<close>

definition inv_traj_ens_member :: "traj \<Rightarrow> real \<Rightarrow> int \<Rightarrow> error + traj" where
  "inv_traj_ens_member tr dt steps =
     (case py_last (plist tr) of
        Inl e \<Rightarrow> Inl e
      | Inr pN \<Rightarrow>
          (case py_last (qlist tr) of
             Inl e \<Rightarrow> Inl e
           | Inr qN \<Rightarrow> Inr (run_traj (- pN) qN dt steps)))"

text \<open>Reversing the momentum of a phase-space point, as the second run does at its start.\<close>

definition flip :: "real \<times> real \<Rightarrow> real \<times> real" where
  "flip s = (- fst s, snd s)"

text \<open>The energy \<open>p\<^sup>2/2 + q\<^sup>2/2\<close> of a phase-space point.\<close>

definition energy :: "real \<times> real \<Rightarrow> real" where
  "energy s = (fst s)\<^sup>2 / 2 + (snd s)\<^sup>2 / 2"

text \<open>
  The quantity \<open>p\<^sup>2 + (1 - dt\<^sup>2/4) q\<^sup>2\<close>, which one step with the force \<open>-q\<close> leaves
  unchanged.
\<close>

definition shadow :: "real \<Rightarrow> real \<times> real \<Rightarrow> real" where
  "shadow dt s = (fst s)\<^sup>2 + (1 - dt\<^sup>2 / 4) * (snd s)\<^sup>2"

subsection \<open>\<open>boltzweight\<close>\<close>

text \<open>
  The module-level names the body of \<open>boltzweight\<close> reads. The notebook binds them to
  one-dimensional arrays (\<open>np.asarray\<close> of a trajectory's lists); \<open>None\<close> is a name not
  bound yet.
\<close>

record globals =
  ps :: "real list option"
  qs :: "real list option"

text \<open>
  Adding two one-dimensional arrays: elementwise for equal lengths, an array of length
  one is broadcast, any other pair of lengths raises \<open>ValueError\<close>.
\<close>

definition np_add_1d :: "real list \<Rightarrow> real list \<Rightarrow> error + real list" where
  "np_add_1d xs ys =
     (if length xs = length ys then Inr (map2 (+) xs ys)
      else if length xs = 1 then Inr (map (\<lambda>y. hd xs + y) ys)
      else if length ys = 1 then Inr (map (\<lambda>x. x + hd ys) xs)
      else Inl ValueError)"

text \<open>
  \<open>boltzweight(p, q, beta)\<close> returns \<open>np.exp(-beta * (ps**2 / 2 + qs**2 / 2))\<close>. Its
  third parameter hides the module-level \<open>beta\<close> and is called \<open>b\<close> here.
\<close>

definition boltzweight :: "globals \<Rightarrow> 'a \<Rightarrow> 'b \<Rightarrow> real \<Rightarrow> error + real list" where
  "boltzweight g p q b =
     (case ps g of
        None \<Rightarrow> Inl NameError
      | Some pv \<Rightarrow>
          (case qs g of
             None \<Rightarrow> Inl NameError
           | Some qv \<Rightarrow>
               (case np_add_1d (map (\<lambda>x. x\<^sup>2 / 2) pv) (map (\<lambda>x. x\<^sup>2 / 2) qv) of
                  Inl e \<Rightarrow> Inl e
                | Inr s \<Rightarrow> Inr (map (\<lambda>x. exp (- b * x)) s))))"

subsection \<open>The formulas of the specification\<close>

text \<open>
  The matrix element as the specification's data model words it: non-zero only for
  \<open>|i - j| = 1\<close>, with the value \<open>sqrt(hbar / (2 m omega)) * sqrt(max(i, j))\<close>.
\<close>

definition q_elem :: "int \<Rightarrow> int \<Rightarrow> real \<Rightarrow> real" where
  "q_elem i j omega =
     (if \<bar>i - j\<bar> = 1 then sqrt (hbar / (2 * m * omega)) * sqrt (real_of_int (max i j)) else 0)"

text \<open>The energy \<open>E(i) = i * hbar * omega\<close>.\<close>

definition E_ref :: "int \<Rightarrow> real \<Rightarrow> real" where
  "E_ref i omega = real_of_int i * hbar * omega"

text \<open>
  The reference eigenstate sum: over \<open>i\<close> from \<open>0\<close> to \<open>i_max\<close> and \<open>j\<close> from \<open>0\<close> to
  \<open>i + 1\<close>, the terms \<open>exp(-i (E\<^sub>i - E\<^sub>j) t / hbar) q\<^sub>i\<^sub>j(omega) q\<^sub>j\<^sub>i(omega)\<close> weighted by
  \<open>exp(-beta E\<^sub>i)\<close>, divided by \<open>Z\<close>, the sum of the weights.
\<close>

definition Cqq_reference :: "real \<Rightarrow> real \<Rightarrow> int \<Rightarrow> complex" where
  "Cqq_reference t omega i_max =
     (\<Sum>i = 0..i_max.
        complex_of_real (exp (- beta * E_ref i omega)) *
        (\<Sum>j = 0..i + 1.
           exp (- \<i> * complex_of_real (E_ref i omega - E_ref j omega) * complex_of_real t
                  / complex_of_real hbar)
           * complex_of_real (q_elem i j omega) * complex_of_real (q_elem j i omega)))
     / complex_of_real (\<Sum>i = 0..i_max. exp (- beta * E_ref i omega))"

text \<open>The array of zeros of the shape of \<open>t\<close>.\<close>

definition zeros_like :: "real np \<Rightarrow> complex np" where
  "zeros_like t =
     (case t of Scalar x \<Rightarrow> Scalar 0 | Array sh xs \<Rightarrow> Array sh (replicate (length xs) 0))"

text \<open>
  The summand of \<open>Cqq_std\<close> at a scalar time: the phase with the energies at \<open>omega\<close>, the
  matrix elements at the default \<open>omega = 1\<close>.
\<close>

definition std_term :: "real \<Rightarrow> real \<Rightarrow> int \<Rightarrow> int \<Rightarrow> complex" where
  "std_term t omega i j =
     exp (- \<i> * complex_of_real (Ei i omega False - Ei j omega False) * complex_of_real t
            / complex_of_real hbar)
     * complex_of_real (q_elem i j 1) * complex_of_real (q_elem j i 1)"

text \<open>
  The quadrature weight of the Kubo-transformed variant as the specification words it:
  \<open>lterm = (dl / beta) * sum over the grid of exp(-l (E\<^sub>j - E\<^sub>i))\<close>, on the uniform grid of
  \<open>L\<close> points \<open>l = k dl\<close> of \<open>[0, beta]\<close>, \<open>dl = beta / (L - 1)\<close>.
\<close>

definition lterm_ref :: "real \<Rightarrow> int \<Rightarrow> int \<Rightarrow> int \<Rightarrow> real" where
  "lterm_ref omega L i j =
     (beta / real_of_int (L - 1)) / beta *
     (\<Sum>k = 0..<nat L. exp (- (real k * (beta / real_of_int (L - 1))) * (E_ref j omega - E_ref i omega)))"

text \<open>
  The Kubo-transformed sum of the specification: each term of the reference sum carries
  its \<open>lterm\<close>; the normalisation is the same.
\<close>

definition Cqq_kubo_reference :: "real \<Rightarrow> real \<Rightarrow> int \<Rightarrow> int \<Rightarrow> complex" where
  "Cqq_kubo_reference t omega i_max L =
     (\<Sum>i = 0..i_max. \<Sum>j = 0..i + 1.
        complex_of_real (lterm_ref omega L i j) * complex_of_real (exp (- beta * E_ref i omega)) *
        exp (- \<i> * complex_of_real (E_ref i omega - E_ref j omega) * complex_of_real t
               / complex_of_real hbar)
        * complex_of_real (q_elem i j omega) * complex_of_real (q_elem j i omega))
     / complex_of_real (\<Sum>i = 0..i_max. exp (- beta * E_ref i omega))"

text \<open>
  The summand of \<open>Cqq_kubo\<close> at a scalar time, on the grid \<open>lgrid\<close>: energies and matrix
  elements at the default \<open>omega = 1\<close>.
\<close>

definition kubo_term :: "real list \<Rightarrow> real \<Rightarrow> int \<Rightarrow> int \<Rightarrow> complex" where
  "kubo_term lgrid t i j =
     complex_of_real
       ((\<Sum>l\<leftarrow>lgrid. exp (- l * (Ei j 1 False - Ei i 1 False))) * (lgrid ! 1 - lgrid ! 0) / beta
        * exp (- beta * Ei i 1 False))
     * exp (- \<i> * complex_of_real (Ei i 1 False - Ei j 1 False) * complex_of_real t
              / complex_of_real hbar)
     * complex_of_real (q_elem i j 1) * complex_of_real (q_elem j i 1)"

section \<open>Properties\<close>

subsection \<open>The velocity-Verlet loop as an iterated step\<close>

text \<open>
  After \<open>n\<close> passes the loop holds the \<open>n\<close>-fold iterate of \<open>verlet_step\<close>, and the
  lists hold the iterates \<open>1\<close> to \<open>n\<close> in order.
\<close>

lemma verlet_loop_state: "fst (verlet_loop n dt s tr) = (verlet_step dt ^^ n) s"
  by (induction n arbitrary: s tr) (simp_all add: Let_def funpow_swap1)

lemma orbit_shift:
  "g (verlet_step dt s) # map (\<lambda>k. g ((verlet_step dt ^^ Suc k) (verlet_step dt s))) [0..<n]
   = map (\<lambda>k. g ((verlet_step dt ^^ Suc k) s)) [0..<Suc n]"
proof -
  have "map (\<lambda>k. g ((verlet_step dt ^^ Suc k) s)) [0..<Suc n]
      = g (verlet_step dt s) # map (\<lambda>k. g ((verlet_step dt ^^ Suc k) s)) (map Suc [0..<n])"
    by (simp only: map_Suc_upt upt_conv_Cons [of 0 "Suc n"]) simp
  also have "map (\<lambda>k. g ((verlet_step dt ^^ Suc k) s)) (map Suc [0..<n])
      = map (\<lambda>k. g ((verlet_step dt ^^ Suc k) (verlet_step dt s))) [0..<n]"
    by (simp add: funpow_swap1 comp_def)
  finally show ?thesis by simp
qed

lemma verlet_loop_plist:
  "plist (snd (verlet_loop n dt s tr))
   = plist tr @ map (\<lambda>k. fst ((verlet_step dt ^^ Suc k) s)) [0..<n]"
proof (induction n arbitrary: s tr)
  case 0
  show ?case by simp
next
  case (Suc n)
  show ?case
    using orbit_shift [of fst dt s n] by (simp add: Let_def Suc.IH del: upt_Suc funpow.simps)
qed

lemma verlet_loop_qlist:
  "qlist (snd (verlet_loop n dt s tr))
   = qlist tr @ map (\<lambda>k. snd ((verlet_step dt ^^ Suc k) s)) [0..<n]"
proof (induction n arbitrary: s tr)
  case 0
  show ?case by simp
next
  case (Suc n)
  show ?case
    using orbit_shift [of snd dt s n] by (simp add: Let_def Suc.IH del: upt_Suc funpow.simps)
qed

lemma verlet_loop_flist:
  "flist (snd (verlet_loop n dt s tr))
   = flist tr @ map (\<lambda>k. f (snd ((verlet_step dt ^^ Suc k) s))) [0..<n]"
proof (induction n arbitrary: s tr)
  case 0
  show ?case by simp
next
  case (Suc n)
  show ?case
    using orbit_shift [of "\<lambda>x. f (snd x)" dt s n] by (simp add: Let_def Suc.IH del: upt_Suc funpow.simps)
qed

lemma plist_run_traj:
  "plist (run_traj p0 q0 dt N) = map (\<lambda>k. fst ((verlet_step dt ^^ Suc k) (p0, q0))) [0..<nat N]"
  by (simp add: run_traj_def verlet_loop_plist)

lemma qlist_run_traj:
  "qlist (run_traj p0 q0 dt N) = map (\<lambda>k. snd ((verlet_step dt ^^ Suc k) (p0, q0))) [0..<nat N]"
  by (simp add: run_traj_def verlet_loop_qlist)

lemma flist_run_traj:
  "flist (run_traj p0 q0 dt N) = map (\<lambda>k. f (snd ((verlet_step dt ^^ Suc k) (p0, q0)))) [0..<nat N]"
  by (simp add: run_traj_def verlet_loop_flist)

lemma verlet_step_flip: "verlet_step dt (flip (verlet_step dt s)) = flip s"
  by (simp add: verlet_step_def flip_def f_def Let_def field_simps)

lemma verlet_funpow_flip:
  "k \<le> n \<Longrightarrow> (verlet_step dt ^^ k) (flip ((verlet_step dt ^^ n) s)) = flip ((verlet_step dt ^^ (n - k)) s)"
proof (induction k)
  case 0
  show ?case by simp
next
  case (Suc k)
  then have "n - k = Suc (n - Suc k)" by simp
  with Suc show ?case
    by (simp add: verlet_step_flip)
qed

lemma py_last_plist:
  "1 \<le> N \<Longrightarrow> py_last (plist (run_traj p0 q0 dt N)) = Inr (fst ((verlet_step dt ^^ nat N) (p0, q0)))"
proof -
  assume "1 \<le> N"
  then obtain n where n: "nat N = Suc n"
    by (cases "nat N") auto
  show ?thesis
    by (simp add: py_last_def plist_run_traj n)
qed

lemma py_last_qlist:
  "1 \<le> N \<Longrightarrow> py_last (qlist (run_traj p0 q0 dt N)) = Inr (snd ((verlet_step dt ^^ nat N) (p0, q0)))"
proof -
  assume "1 \<le> N"
  then obtain n where n: "nat N = Suc n"
    by (cases "nat N") auto
  show ?thesis
    by (simp add: py_last_def qlist_run_traj n)
qed

lemma inv_traj_ens_member_run:
  "1 \<le> N \<Longrightarrow>
   inv_traj_ens_member (run_traj p0 q0 dt N) dt N
   = Inr (run_traj (- fst ((verlet_step dt ^^ nat N) (p0, q0)))
                   (snd ((verlet_step dt ^^ nat N) (p0, q0))) dt N)"
  by (simp add: inv_traj_ens_member_def py_last_plist py_last_qlist)

lemma qlist_reversed_run:
  "qlist (run_traj (- fst ((verlet_step dt ^^ nat N) s)) (snd ((verlet_step dt ^^ nat N) s)) dt N)
   = map (\<lambda>k. snd ((verlet_step dt ^^ (nat N - Suc k)) s)) [0..<nat N]"
proof -
  have "(verlet_step dt ^^ Suc k) (flip ((verlet_step dt ^^ nat N) s))
        = flip ((verlet_step dt ^^ (nat N - Suc k)) s)" if "k < nat N" for k
    using that verlet_funpow_flip [of "Suc k" "nat N" dt s] by simp
  then show ?thesis
    unfolding qlist_run_traj by (simp add: flip_def)
qed

lemma rev_map_countdown: "rev (map (\<lambda>k. g (n - Suc k)) [0..<n]) = map g [0..<n]"
  by (rule nth_equalityI) (simp_all add: rev_nth)

lemma rev_qlist_reversed_run:
  "rev (qlist (run_traj (- fst ((verlet_step dt ^^ nat N) s)) (snd ((verlet_step dt ^^ nat N) s)) dt N))
   = map (\<lambda>k. snd ((verlet_step dt ^^ k) s)) [0..<nat N]"
  unfolding qlist_reversed_run by (rule rev_map_countdown)

lemma cons_butlast_qlist:
  "1 \<le> N \<Longrightarrow> q0 # butlast (qlist (run_traj p0 q0 dt N))
     = map (\<lambda>k. snd ((verlet_step dt ^^ k) (p0, q0))) [0..<nat N]"
proof -
  assume "1 \<le> N"
  then obtain n where n: "nat N = Suc n"
    by (cases "nat N") auto
  have "map (\<lambda>k. snd ((verlet_step dt ^^ k) (p0, q0))) [0..<Suc n]
      = q0 # map (\<lambda>k. snd ((verlet_step dt ^^ k) (p0, q0))) (map Suc [0..<n])"
    by (simp only: map_Suc_upt upt_conv_Cons [of 0 "Suc n"]) simp
  then show ?thesis
    unfolding qlist_run_traj n by (simp add: comp_def del: funpow.simps)
qed

subsection \<open>Time reversal\<close>

text \<open>
  C8. In exact arithmetic one velocity-Verlet step with the force \<open>f(q) = -q\<close> maps
  \<open>(-p', q')\<close> back to \<open>(-p, q)\<close>, where \<open>(p', q')\<close> is the step's result on \<open>(p, q)\<close>.
  Hence for \<open>N \<ge> 1\<close> the second run, started from \<open>(-p\<^sub>N, q\<^sub>N)\<close>, returns, and its
  position list read backwards is \<open>q\<^sub>0, q\<^sub>1, \<dots>, q\<^sub>N\<^sub>-\<^sub>1\<close>: the initial position followed by
  the forward list \<open>q\<^sub>1, \<dots>, q\<^sub>N\<close> without its last element, the forward list shifted by
  one step. It is not the forward list itself: if the two lists were equal, the first
  step would not move the position, \<open>(p\<^sub>0 + f(q\<^sub>0) dt/2) dt = 0\<close>.
\<close>

theorem reversed_run_is_shifted_forward_run:
  "verlet_step dt (- fst (verlet_step dt s), snd (verlet_step dt s)) = (- fst s, snd s) \<and>
   (1 \<le> N \<longrightarrow>
      (\<exists>inv. inv_traj_ens_member (run_traj p0 q0 dt N) dt N = Inr inv \<and>
         rev (qlist inv) = q0 # butlast (qlist (run_traj p0 q0 dt N)) \<and>
         (rev (qlist inv) = qlist (run_traj p0 q0 dt N) \<longrightarrow> (p0 + f q0 * dt / 2) * dt = 0)))"
proof (intro conjI impI)
  show "verlet_step dt (- fst (verlet_step dt s), snd (verlet_step dt s)) = (- fst s, snd s)"
    using verlet_step_flip [of dt s] by (simp add: flip_def)
next
  assume N: "1 \<le> N"
  let ?inv = "run_traj (- fst ((verlet_step dt ^^ nat N) (p0, q0)))
                       (snd ((verlet_step dt ^^ nat N) (p0, q0))) dt N"
  have shifted: "rev (qlist ?inv) = q0 # butlast (qlist (run_traj p0 q0 dt N))"
    by (simp only: rev_qlist_reversed_run cons_butlast_qlist [OF N])
  have "(p0 + f q0 * dt / 2) * dt = 0" if eq: "rev (qlist ?inv) = qlist (run_traj p0 q0 dt N)"
  proof -
    from N obtain n where n: "nat N = Suc n"
      by (cases "nat N") auto
    have "rev (qlist ?inv) ! 0 = map (\<lambda>k. snd ((verlet_step dt ^^ k) (p0, q0))) [0..<nat N] ! 0"
      by (simp only: rev_qlist_reversed_run)
    then have "rev (qlist ?inv) ! 0 = q0"
      by (simp add: n del: upt_Suc)
    moreover have "qlist (run_traj p0 q0 dt N) ! 0 = q0 + (p0 + f q0 * dt / 2) * dt"
      by (simp add: qlist_run_traj n verlet_step_def Let_def del: upt_Suc)
    ultimately show ?thesis
      using eq by simp
  qed
  with shifted inv_traj_ens_member_run [OF N, of p0 q0 dt]
  show "\<exists>inv. inv_traj_ens_member (run_traj p0 q0 dt N) dt N = Inr inv \<and>
         rev (qlist inv) = q0 # butlast (qlist (run_traj p0 q0 dt N)) \<and>
         (rev (qlist inv) = qlist (run_traj p0 q0 dt N) \<longrightarrow> (p0 + f q0 * dt / 2) * dt = 0)"
    by blast
qed


theorem reversed_run_is_shifted_forward_run_witness:
  "verlet_step (1/100) (- fst (verlet_step (1/100) (1, 0)), snd (verlet_step (1/100) (1, 0))) = (- 1, 0) \<and>
   (1::int) \<le> 1 \<and>
   (\<exists>inv. inv_traj_ens_member (run_traj 1 0 (1/100) 1) (1/100) 1 = Inr inv \<and>
      rev (qlist inv) = 0 # butlast (qlist (run_traj 1 0 (1/100) 1)) \<and>
      rev (qlist inv) \<noteq> qlist (run_traj 1 0 (1/100) 1))"
  using reversed_run_is_shifted_forward_run [of "1/100" "(1, 0)" 1 1 0]
  by (auto simp: f_def)

lemma shadow_verlet_step: "shadow dt (verlet_step dt s) = shadow dt s"
  by (simp add: shadow_def verlet_step_def f_def Let_def power2_eq_square field_simps)

lemma shadow_funpow: "shadow dt ((verlet_step dt ^^ n) s) = shadow dt s"
  by (induction n) (simp_all add: shadow_verlet_step)

lemma energy_shadow: "energy s = shadow dt s / 2 + dt\<^sup>2 * (snd s)\<^sup>2 / 8"
  by (simp add: energy_def shadow_def field_simps)

lemma energy_drift:
  assumes dt: "\<bar>dt\<bar> \<le> 1"
  shows "\<bar>energy ((verlet_step dt ^^ n) s) - energy s\<bar> \<le> dt\<^sup>2 * energy s / 3"
proof -
  define sn where "sn = (verlet_step dt ^^ n) s"
  define E where "E = energy s"
  have dt2: "dt\<^sup>2 \<le> 1"
    using dt by (simp add: abs_le_square_iff [of dt 1, simplified])
  have E: "(fst s)\<^sup>2 + (snd s)\<^sup>2 = 2 * E"
    by (simp add: E_def energy_def)
  have sh: "shadow dt sn = shadow dt s"
    by (simp add: sn_def shadow_funpow)
  have "3 / 4 * (snd sn)\<^sup>2 \<le> (1 - dt\<^sup>2 / 4) * (snd sn)\<^sup>2"
    using dt2 by (intro mult_right_mono) simp_all
  also have "\<dots> \<le> shadow dt sn"
    by (simp add: shadow_def)
  also have "\<dots> = (fst s)\<^sup>2 + (snd s)\<^sup>2 - dt\<^sup>2 * (snd s)\<^sup>2 / 4"
    unfolding sh by (simp add: shadow_def algebra_simps)
  also have "\<dots> \<le> 2 * E"
    using E by simp
  finally have qn: "(snd sn)\<^sup>2 \<le> 8 * E / 3"
    by simp
  have q0: "(snd s)\<^sup>2 \<le> 2 * E"
    using E zero_le_power2 [of "fst s"] by linarith
  have E0: "0 \<le> E"
    by (simp add: E_def energy_def)
  have diff: "\<bar>(snd sn)\<^sup>2 - (snd s)\<^sup>2\<bar> \<le> 8 * E / 3"
    using qn q0 E0 zero_le_power2 [of "snd sn"] zero_le_power2 [of "snd s"] by linarith
  have "energy sn - energy s = dt\<^sup>2 / 8 * ((snd sn)\<^sup>2 - (snd s)\<^sup>2)"
    using energy_shadow [of sn dt] energy_shadow [of s dt] sh by (simp add: algebra_simps)
  then have "\<bar>energy sn - energy s\<bar> = \<bar>dt\<^sup>2 / 8\<bar> * \<bar>(snd sn)\<^sup>2 - (snd s)\<^sup>2\<bar>"
    by (simp only: abs_mult)
  also have "\<bar>dt\<^sup>2 / 8\<bar> = dt\<^sup>2 / 8"
    by simp
  finally have "\<bar>energy sn - energy s\<bar> = dt\<^sup>2 / 8 * \<bar>(snd sn)\<^sup>2 - (snd s)\<^sup>2\<bar>" .
  also have "\<dots> \<le> dt\<^sup>2 / 8 * (8 * E / 3)"
    using diff by (intro mult_left_mono) simp_all
  finally show ?thesis
    by (simp add: sn_def E_def)
qed

lemma nth_plist_run_traj:
  "k < nat N \<Longrightarrow> plist (run_traj p0 q0 dt N) ! k = fst ((verlet_step dt ^^ Suc k) (p0, q0))"
  by (simp add: plist_run_traj del: funpow.simps)

lemma nth_qlist_run_traj:
  "k < nat N \<Longrightarrow> qlist (run_traj p0 q0 dt N) ! k = snd ((verlet_step dt ^^ Suc k) (p0, q0))"
  by (simp add: qlist_run_traj del: funpow.simps)

lemma nth_flist_run_traj:
  "k < nat N \<Longrightarrow> flist (run_traj p0 q0 dt N) ! k = f (snd ((verlet_step dt ^^ Suc k) (p0, q0)))"
  by (simp add: flist_run_traj del: funpow.simps)

lemma last_plist_run_traj:
  "1 \<le> N \<Longrightarrow> last (plist (run_traj p0 q0 dt N)) = fst ((verlet_step dt ^^ nat N) (p0, q0))"
  using py_last_plist [of N p0 q0 dt] by (simp add: py_last_def split: if_splits)

lemma last_qlist_run_traj:
  "1 \<le> N \<Longrightarrow> last (qlist (run_traj p0 q0 dt N)) = snd ((verlet_step dt ^^ nat N) (p0, q0))"
  using py_last_qlist [of N p0 q0 dt] by (simp add: py_last_def split: if_splits)

subsection \<open>Energy along a trajectory\<close>

text \<open>
  C7. For the force \<open>f(q) = -q\<close> and a step size \<open>|dt| \<le> 1\<close> the energy
  \<open>p\<^sup>2/2 + q\<^sup>2/2\<close> of every recorded state differs from the initial energy \<open>E\<^sub>0\<close> by at
  most \<open>dt\<^sup>2 E\<^sub>0 / 3\<close>, whatever the number of steps: the deviation is \<open>O(dt\<^sup>2)\<close> with a
  constant that does not grow along the trajectory. With \<open>dt = 0.01\<close>, \<open>10000\<close> steps,
  \<open>p\<^sub>0 = 1\<close> and \<open>q\<^sub>0 = 0\<close> the final energy is within \<open>10\<^sup>-\<^sup>4\<close> of the initial one.
\<close>

theorem energy_within_dt_squared:
  "(\<bar>dt\<bar> \<le> 1 \<longrightarrow>
      (\<forall>k < nat N.
         \<bar>energy (plist (run_traj p0 q0 dt N) ! k, qlist (run_traj p0 q0 dt N) ! k) - energy (p0, q0)\<bar>
         \<le> dt\<^sup>2 * energy (p0, q0) / 3)) \<and>
   \<bar>energy (last (plist (run_traj 1 0 (1/100) 10000)), last (qlist (run_traj 1 0 (1/100) 10000)))
      - energy (1, 0)\<bar> \<le> 1 / 10 ^ 4"
proof (intro conjI impI allI)
  fix k
  assume dt: "\<bar>dt\<bar> \<le> 1" and k: "k < nat N"
  show "\<bar>energy (plist (run_traj p0 q0 dt N) ! k, qlist (run_traj p0 q0 dt N) ! k) - energy (p0, q0)\<bar>
        \<le> dt\<^sup>2 * energy (p0, q0) / 3"
    using energy_drift [OF dt, of "Suc k" "(p0, q0)"]
    by (simp only: nth_plist_run_traj [OF k] nth_qlist_run_traj [OF k] prod.collapse)
next
  have "\<bar>energy ((verlet_step (1/100) ^^ nat 10000) (1, 0)) - energy (1, 0)\<bar>
        \<le> (1/100)\<^sup>2 * energy (1, 0) / 3"
    by (rule energy_drift) simp
  also have "\<dots> \<le> 1 / 10 ^ 4"
    by (simp add: energy_def power2_eq_square)
  finally show "\<bar>energy (last (plist (run_traj 1 0 (1/100) 10000)), last (qlist (run_traj 1 0 (1/100) 10000)))
      - energy (1, 0)\<bar> \<le> 1 / 10 ^ 4"
    by (simp only: last_plist_run_traj last_qlist_run_traj prod.collapse)
qed


theorem energy_within_dt_squared_witness:
  "\<bar>1 / 100 :: real\<bar> \<le> 1 \<and> (9999::nat) < nat 10000 \<and>
   \<bar>energy (plist (run_traj 1 0 (1/100) 10000) ! 9999, qlist (run_traj 1 0 (1/100) 10000) ! 9999)
      - energy (1, 0)\<bar> \<le> (1/100)\<^sup>2 * energy (1, 0) / 3"
  using energy_within_dt_squared [of "1/100" 10000 1 0] by simp

lemma length_run_traj:
  "length (plist (run_traj p0 q0 dt N)) = nat N"
  "length (qlist (run_traj p0 q0 dt N)) = nat N"
  "length (flist (run_traj p0 q0 dt N)) = nat N"
  by (simp_all add: plist_run_traj qlist_run_traj flist_run_traj)

lemma py_int_nonneg: "0 \<le> x \<Longrightarrow> 0 \<le> py_int x"
  by (simp add: py_int_def)

subsection \<open>What the integrator returns\<close>

text \<open>
  C5. For every \<open>p0\<close>, \<open>q0\<close>, \<open>tmax\<close> and every \<open>dt > 0\<close> the integrator returns. Its loop
  is \<open>for i in range(N)\<close> with \<open>N = int(tmax / dt)\<close>; the three lists have one and the
  same length, the number of passes of that loop (\<open>N\<close> itself for \<open>tmax \<ge> 0\<close>); entry
  \<open>k\<close> of the lists is \<open>p\<close>, \<open>q\<close> and \<open>f(q)\<close> after \<open>k + 1\<close> steps, so the initial state is
  not recorded; one step is the half kick \<open>p + f(q) dt/2\<close>, the drift of \<open>q\<close> by the new
  \<open>p\<close> times \<open>dt\<close>, and the half kick with the force at the new \<open>q\<close>. With \<open>p0 = 0\<close>,
  \<open>q0 = 1\<close>, \<open>dt = 0.01\<close> and one step the recorded position is \<open>0.99995\<close>.
\<close>

theorem integrator_steps_and_lists:
  "(0 < dt \<longrightarrow>
      (\<exists>tr. traj_ens_member p0 q0 dt tmax = Inr tr \<and>
         length (plist tr) = nat (py_int (tmax / dt)) \<and>
         length (qlist tr) = nat (py_int (tmax / dt)) \<and>
         length (flist tr) = nat (py_int (tmax / dt)) \<and>
         (0 \<le> tmax \<longrightarrow> int (length (qlist tr)) = py_int (tmax / dt)) \<and>
         (\<forall>k < nat (py_int (tmax / dt)).
            plist tr ! k = fst ((verlet_step dt ^^ Suc k) (p0, q0)) \<and>
            qlist tr ! k = snd ((verlet_step dt ^^ Suc k) (p0, q0)) \<and>
            flist tr ! k = f (qlist tr ! k)))) \<and>
   verlet_step dt (p, q) =
     (p + f q * dt / 2 + f (q + (p + f q * dt / 2) * dt) * dt / 2, q + (p + f q * dt / 2) * dt) \<and>
   traj_ens_member 0 1 (1/100) (1/100)
     = Inr \<lparr>plist = [- 39999 / 4000000], qlist = [19999 / 20000], flist = [- 19999 / 20000]\<rparr>"
proof (intro conjI impI)
  assume dt: "0 < dt"
  let ?N = "py_int (tmax / dt)"
  have "traj_ens_member p0 q0 dt tmax = Inr (run_traj p0 q0 dt ?N)"
    using dt by (simp add: traj_ens_member_def)
  moreover have "0 \<le> tmax \<longrightarrow> int (length (qlist (run_traj p0 q0 dt ?N))) = ?N"
    using dt py_int_nonneg [of "tmax / dt"] by (simp add: length_run_traj)
  moreover have "\<forall>k < nat ?N.
            plist (run_traj p0 q0 dt ?N) ! k = fst ((verlet_step dt ^^ Suc k) (p0, q0)) \<and>
            qlist (run_traj p0 q0 dt ?N) ! k = snd ((verlet_step dt ^^ Suc k) (p0, q0)) \<and>
            flist (run_traj p0 q0 dt ?N) ! k = f (qlist (run_traj p0 q0 dt ?N) ! k)"
    by (intro allI impI) (simp only: nth_plist_run_traj nth_qlist_run_traj nth_flist_run_traj)
  ultimately show "\<exists>tr. traj_ens_member p0 q0 dt tmax = Inr tr \<and>
         length (plist tr) = nat ?N \<and> length (qlist tr) = nat ?N \<and> length (flist tr) = nat ?N \<and>
         (0 \<le> tmax \<longrightarrow> int (length (qlist tr)) = ?N) \<and>
         (\<forall>k < nat ?N.
            plist tr ! k = fst ((verlet_step dt ^^ Suc k) (p0, q0)) \<and>
            qlist tr ! k = snd ((verlet_step dt ^^ Suc k) (p0, q0)) \<and>
            flist tr ! k = f (qlist tr ! k))"
    using length_run_traj [of p0 q0 dt ?N] by blast
next
  show "verlet_step dt (p, q) =
     (p + f q * dt / 2 + f (q + (p + f q * dt / 2) * dt) * dt / 2, q + (p + f q * dt / 2) * dt)"
    by (simp add: verlet_step_def Let_def)
next
  have "py_int 1 = 1"
    by (simp add: py_int_def)
  then show "traj_ens_member 0 1 (1/100) (1/100)
     = Inr \<lparr>plist = [- 39999 / 4000000], qlist = [19999 / 20000], flist = [- 19999 / 20000]\<rparr>"
    by (simp add: traj_ens_member_def run_traj_def verlet_step_def f_def Let_def)
qed


theorem integrator_steps_and_lists_witness:
  "(0::real) < 1 / 100 \<and> (0::real) \<le> 100 \<and> (0::nat) < nat 10000 \<and>
   (\<exists>tr. traj_ens_member 0 1 (1/100) 100 = Inr tr \<and>
      length (plist tr) = 10000 \<and> length (qlist tr) = 10000 \<and> length (flist tr) = 10000 \<and>
      plist tr ! 0 = - 39999 / 4000000 \<and> qlist tr ! 0 = 19999 / 20000 \<and>
      flist tr ! 0 = f (qlist tr ! 0))"
proof -
  have N: "py_int (100 / (1 / 100)) = 10000"
    by (simp add: py_int_def)
  have s1: "verlet_step (1/100) (0, 1) = (- 39999 / 4000000, 19999 / 20000)"
    by (simp add: verlet_step_def f_def Let_def)
  from integrator_steps_and_lists [of "1/100" 0 1 100 0 1]
  obtain tr where tr: "traj_ens_member 0 1 (1/100) 100 = Inr tr"
      "length (plist tr) = nat 10000" "length (qlist tr) = nat 10000" "length (flist tr) = nat 10000"
      "\<forall>k < nat 10000.
            plist tr ! k = fst ((verlet_step (1/100) ^^ Suc k) (0, 1)) \<and>
            qlist tr ! k = snd ((verlet_step (1/100) ^^ Suc k) (0, 1)) \<and>
            flist tr ! k = f (qlist tr ! k)"
    unfolding N by auto
  from tr(5) have "plist tr ! 0 = fst (verlet_step (1/100) (0, 1)) \<and>
      qlist tr ! 0 = snd (verlet_step (1/100) (0, 1)) \<and> flist tr ! 0 = f (qlist tr ! 0)"
    by simp
  then have "plist tr ! 0 = - 39999 / 4000000 \<and> qlist tr ! 0 = 19999 / 20000 \<and>
      flist tr ! 0 = f (qlist tr ! 0)"
    by (simp add: s1)
  with tr(1-4) show ?thesis
    by auto
qed

subsection \<open>The reversed run against the forward run, index by index\<close>

text \<open>
  C1, as amended. For \<open>N \<ge> 1\<close> the second run, started from \<open>(-p\<^sub>N, q\<^sub>N)\<close> with the same
  \<open>N\<close> and \<open>dt\<close>, returns a position list of the forward list's length. Read backwards it
  reproduces the forward positions shifted by one index, exactly: its first element is
  \<open>q\<^sub>0\<close> and its element \<open>k + 1\<close> is the forward element \<open>k\<close>. At equal indices the two
  lists differ by the displacement of one step, \<open>(p\<^sub>k + f(q\<^sub>k) dt/2) dt\<close>.
\<close>

theorem reversed_run_elementwise_shift:
  "1 \<le> N \<longrightarrow>
     (\<exists>inv. inv_traj_ens_member (run_traj p0 q0 dt N) dt N = Inr inv \<and>
        length (qlist inv) = nat N \<and>
        length (qlist (run_traj p0 q0 dt N)) = nat N \<and>
        rev (qlist inv) ! 0 = q0 \<and>
        (\<forall>k. Suc k < nat N \<longrightarrow> rev (qlist inv) ! Suc k = qlist (run_traj p0 q0 dt N) ! k) \<and>
        (\<forall>k < nat N. qlist (run_traj p0 q0 dt N) ! k - rev (qlist inv) ! k
            = (fst ((verlet_step dt ^^ k) (p0, q0)) + f (snd ((verlet_step dt ^^ k) (p0, q0))) * dt / 2) * dt))"
proof
  assume N: "1 \<le> N"
  let ?inv = "run_traj (- fst ((verlet_step dt ^^ nat N) (p0, q0)))
                       (snd ((verlet_step dt ^^ nat N) (p0, q0))) dt N"
  have rev_nth: "rev (qlist ?inv) ! k = snd ((verlet_step dt ^^ k) (p0, q0))" if "k < nat N" for k
    using that by (simp only: rev_qlist_reversed_run) simp
  have fwd_nth: "qlist (run_traj p0 q0 dt N) ! k = snd ((verlet_step dt ^^ Suc k) (p0, q0))"
    if "k < nat N" for k
    using that by (rule nth_qlist_run_traj)
  have "rev (qlist ?inv) ! 0 = q0"
    using N rev_nth [of 0] by simp
  moreover have "\<forall>k. Suc k < nat N \<longrightarrow> rev (qlist ?inv) ! Suc k = qlist (run_traj p0 q0 dt N) ! k"
    using rev_nth fwd_nth by simp
  moreover have "\<forall>k < nat N. qlist (run_traj p0 q0 dt N) ! k - rev (qlist ?inv) ! k
            = (fst ((verlet_step dt ^^ k) (p0, q0)) + f (snd ((verlet_step dt ^^ k) (p0, q0))) * dt / 2) * dt"
    using rev_nth fwd_nth by (simp add: verlet_step_def Let_def)
  moreover have "length (qlist ?inv) = nat N" "length (qlist (run_traj p0 q0 dt N)) = nat N"
    by (simp_all only: length_run_traj)
  ultimately show "\<exists>inv. inv_traj_ens_member (run_traj p0 q0 dt N) dt N = Inr inv \<and>
        length (qlist inv) = nat N \<and>
        length (qlist (run_traj p0 q0 dt N)) = nat N \<and>
        rev (qlist inv) ! 0 = q0 \<and>
        (\<forall>k. Suc k < nat N \<longrightarrow> rev (qlist inv) ! Suc k = qlist (run_traj p0 q0 dt N) ! k) \<and>
        (\<forall>k < nat N. qlist (run_traj p0 q0 dt N) ! k - rev (qlist inv) ! k
            = (fst ((verlet_step dt ^^ k) (p0, q0)) + f (snd ((verlet_step dt ^^ k) (p0, q0))) * dt / 2) * dt)"
    using inv_traj_ens_member_run [OF N, of p0 q0 dt] by blast
qed

theorem reversed_run_elementwise_shift_witness:
  "(1::int) \<le> 2 \<and> Suc 0 < nat 2 \<and>
   (\<exists>inv. inv_traj_ens_member (run_traj 1 0 (1/100) 2) (1/100) 2 = Inr inv \<and>
      length (qlist inv) = 2 \<and> length (qlist (run_traj 1 0 (1/100) 2)) = 2 \<and>
      rev (qlist inv) ! 0 = 0 \<and>
      rev (qlist inv) ! Suc 0 = qlist (run_traj 1 0 (1/100) 2) ! 0 \<and>
      qlist (run_traj 1 0 (1/100) 2) ! 0 - rev (qlist inv) ! 0 = 1 / 100)"
proof -
  from reversed_run_elementwise_shift [of 2 1 0 "1/100"]
  obtain inv where inv: "inv_traj_ens_member (run_traj 1 0 (1/100) 2) (1/100) 2 = Inr inv"
      "length (qlist inv) = nat 2" "length (qlist (run_traj 1 0 (1/100) 2)) = nat 2"
      "rev (qlist inv) ! 0 = 0"
      "\<forall>k. Suc k < nat 2 \<longrightarrow> rev (qlist inv) ! Suc k = qlist (run_traj 1 0 (1/100) 2) ! k"
      "\<forall>k < nat 2. qlist (run_traj 1 0 (1/100) 2) ! k - rev (qlist inv) ! k
            = (fst ((verlet_step (1/100) ^^ k) (1, 0)) + f (snd ((verlet_step (1/100) ^^ k) (1, 0))) * (1/100) / 2) * (1/100)"
    by auto
  from inv(5) have "rev (qlist inv) ! Suc 0 = qlist (run_traj 1 0 (1/100) 2) ! 0"
    by simp
  moreover from inv(6) have "qlist (run_traj 1 0 (1/100) 2) ! 0 - rev (qlist inv) ! 0 = 1 / 100"
    by (simp add: f_def)
  ultimately show ?thesis
    using inv(1-4) by auto
qed

text \<open>
  C1, as stated, fails: with \<open>p0 = 1\<close>, \<open>q0 = 0\<close>, \<open>dt = 0.01\<close> and \<open>N = 10000\<close> the reversed
  list read backwards and the forward list differ by \<open>0.01\<close> at index \<open>0\<close>, far more than
  \<open>10\<^sup>-\<^sup>1\<^sup>0\<close>.
\<close>

theorem reversed_run_misses_tolerance:
  "\<exists>inv. inv_traj_ens_member (run_traj 1 0 (1/100) 10000) (1/100) 10000 = Inr inv \<and>
     \<bar>rev (qlist inv) ! 0 - qlist (run_traj 1 0 (1/100) 10000) ! 0\<bar> = 1 / 100 \<and>
     \<not> (\<forall>k < 10000. \<bar>rev (qlist inv) ! k - qlist (run_traj 1 0 (1/100) 10000) ! k\<bar> \<le> 1 / 10 ^ 10)"
proof -
  define inv where "inv = run_traj (- fst ((verlet_step (1/100) ^^ nat 10000) (1, 0)))
                       (snd ((verlet_step (1/100) ^^ nat 10000) (1, 0))) (1/100) 10000"
  define fwd where "fwd = run_traj 1 0 (1/100) 10000"
  have mem: "inv_traj_ens_member fwd (1/100) 10000 = Inr inv"
    unfolding inv_def fwd_def by (rule inv_traj_ens_member_run) simp
  have "rev (qlist inv) ! 0 = map (\<lambda>k. snd ((verlet_step (1/100) ^^ k) (1, 0))) [0..<nat 10000] ! 0"
    unfolding inv_def by (simp only: rev_qlist_reversed_run)
  then have r0: "rev (qlist inv) ! 0 = 0"
    by simp
  have "qlist fwd ! 0 = snd ((verlet_step (1/100) ^^ Suc 0) (1, 0))"
    unfolding fwd_def by (rule nth_qlist_run_traj) simp
  then have f0: "qlist fwd ! 0 = 1 / 100"
    by (simp add: verlet_step_def f_def Let_def)
  have d: "\<bar>rev (qlist inv) ! 0 - qlist fwd ! 0\<bar> = 1 / 100"
    by (simp add: r0 f0)
  have "\<not> (\<forall>k < 10000. \<bar>rev (qlist inv) ! k - qlist fwd ! k\<bar> \<le> 1 / 10 ^ 10)"
  proof
    assume "\<forall>k < 10000. \<bar>rev (qlist inv) ! k - qlist fwd ! k\<bar> \<le> 1 / 10 ^ 10"
    then have "\<bar>rev (qlist inv) ! 0 - qlist fwd ! 0\<bar> \<le> 1 / 10 ^ 10"
      by simp
    with d show False
      by simp
  qed
  with mem d show ?thesis
    unfolding fwd_def by blast
qed

subsection \<open>The matrix elements\<close>

text \<open>
  For \<open>omega \<noteq> 0\<close> the call \<open>qij(i, j, omega)\<close> returns, and its value is the matrix
  element of the specification.
\<close>

lemma qij_q_elem: "omega \<noteq> 0 \<Longrightarrow> qij i j omega = Inr (q_elem i j omega)"
  by (auto simp: qij_def q_elem_def m_def max_def)

lemma qij_default: "qij i j 1 = Inr (q_elem i j 1)"
  by (rule qij_q_elem) simp

lemma q_elem_commute: "q_elem i j omega = q_elem j i omega"
  by (simp add: q_elem_def max.commute abs_minus_commute)

lemma q_elem_product:
  "0 < omega \<Longrightarrow> q_elem i j omega * q_elem j i omega
     = (if \<bar>i - j\<bar> = 1 then hbar / (2 * m * omega) * \<bar>real_of_int (max i j)\<bar> else 0)"
proof -
  assume w: "0 < omega"
  have "q_elem i j omega * q_elem j i omega = (q_elem i j omega)\<^sup>2"
    by (simp add: q_elem_commute [of j i] power2_eq_square)
  also have "\<dots> = (if \<bar>i - j\<bar> = 1 then hbar / (2 * m * omega) * \<bar>real_of_int (max i j)\<bar> else 0)"
  proof -
    have sq: "(sqrt a * sqrt b)\<^sup>2 = \<bar>a\<bar> * \<bar>b\<bar>" for a b :: real
      by (simp add: power2_eq_square mult.assoc mult.left_commute)
    show ?thesis
      using w by (simp add: q_elem_def sq hbar_def m_def)
  qed
  finally show ?thesis .
qed

text \<open>
  C4. For all indices \<open>i, j \<ge> 0\<close> and every \<open>omega > 0\<close>: \<open>qij(i, j, omega)\<close> equals
  \<open>qij(j, i, omega)\<close>; it is \<open>0\<close> whenever \<open>|i - j| \<noteq> 1\<close>; and for \<open>|i - j| = 1\<close> it is
  \<open>sqrt(hbar / (2 m omega)) * sqrt(max(i, j))\<close>. In particular
  \<open>qij(1, 2, omega=1) = sqrt(0.5) * sqrt(2) = 1\<close> and \<open>qij(0, 0) = 0\<close>.
\<close>

theorem qij_symmetric_selection_rule:
  "(0 \<le> i \<and> 0 \<le> j \<and> 0 < omega \<longrightarrow>
      qij i j omega = qij j i omega \<and>
      (\<bar>i - j\<bar> \<noteq> 1 \<longrightarrow> qij i j omega = Inr 0) \<and>
      (\<bar>i - j\<bar> = 1 \<longrightarrow>
         qij i j omega = Inr (sqrt (hbar / (2 * m * omega)) * sqrt (real_of_int (max i j))))) \<and>
   qij 1 2 1 = Inr (sqrt 0.5 * sqrt 2) \<and> qij 1 2 1 = Inr 1 \<and> qij 0 0 1 = Inr 0"
proof (intro conjI impI)
  assume h: "0 \<le> i \<and> 0 \<le> j \<and> 0 < omega"
  then have w: "omega \<noteq> 0"
    by simp
  show "qij i j omega = qij j i omega"
    by (simp add: qij_q_elem [OF w] q_elem_commute [of i j])
  show "qij i j omega = Inr 0" if "\<bar>i - j\<bar> \<noteq> 1"
    using that by (simp add: qij_q_elem [OF w] q_elem_def)
  show "qij i j omega = Inr (sqrt (hbar / (2 * m * omega)) * sqrt (real_of_int (max i j)))"
    if "\<bar>i - j\<bar> = 1"
    using that by (simp add: qij_q_elem [OF w] q_elem_def)
next
  show "qij 1 2 1 = Inr (sqrt 0.5 * sqrt 2)"
    by (simp add: qij_def m_def hbar_def)
  have "sqrt (1 / 2) * sqrt 2 = 1"
    by (simp add: real_sqrt_mult [symmetric])
  then show "qij 1 2 1 = Inr 1"
    by (simp add: qij_def m_def hbar_def)
  show "qij 0 0 1 = Inr 0"
    by (simp add: qij_def)
qed

theorem qij_symmetric_selection_rule_witness:
  "(0::int) \<le> 2 \<and> (0::int) \<le> 3 \<and> (0::real) < 2 \<and>
   qij 2 3 2 = qij 3 2 2 \<and> \<bar>2 - 3 :: int\<bar> = 1 \<and>
   qij 2 3 2 = Inr (sqrt (hbar / (2 * m * 2)) * sqrt (real_of_int (max 2 3))) \<and>
   \<bar>2 - 0 :: int\<bar> \<noteq> 1 \<and> qij 2 0 2 = Inr 0"
  using qij_symmetric_selection_rule [of 2 3 2] qij_symmetric_selection_rule [of 2 0 2]
  by (simp add: qij_def m_def)

subsection \<open>numpy operations, element by element\<close>

text \<open>
  A value computed from \<open>t\<close> element by element is \<open>map_np g t\<close>: the scalar \<open>g t\<close> for a
  scalar \<open>t\<close>, the array of \<open>t\<close>'s shape with \<open>g\<close> applied to every element otherwise. The
  operations of the evaluators keep values in this form, so that two arrays that meet
  in an addition are both of the shape of \<open>t\<close>.
\<close>

lemma map2_same: "map2 h (map g xs) (map k xs) = map (\<lambda>x. h (g x) (k x)) xs"
  by (induction xs) simp_all

lemma np_add_elementwise:
  "np_add (map_np g t) (map_np h t) = map_np (\<lambda>x. g x + h x) t"
  "np_add (Scalar a) (map_np h t) = map_np (\<lambda>x. a + h x) t"
  by (cases t; simp add: np_add_def map2_same)+

lemma np_mul_elementwise:
  "np_mul (map_np g t) (cscalar c) = map_np (\<lambda>x. g x * complex_of_real c) t"
  "np_mul (cscalar c) (map_np g t) = map_np (\<lambda>x. complex_of_real c * g x) t"
  by (cases t; simp add: np_mul_def cscalar_def)+

lemma np_div_elementwise:
  "np_div (map_np g t) (cscalar c) = map_np (\<lambda>x. g x / complex_of_real c) t"
  by (cases t; simp add: np_div_def cscalar_def)

lemma phase_factor_elementwise:
  "phase_factor t omega i j
   = map_np (\<lambda>x. exp (- \<i> * complex_of_real (Ei i omega False - Ei j omega False) * complex_of_real x
                        / complex_of_real hbar)) t"
  by (cases t; simp add: phase_factor_def np_exp_def np_div_def np_mul_def np_complex_def cscalar_def)

lemma np_times_zero_zeros_like: "np_times_zero t = zeros_like t"
  by (cases t) (simp_all add: np_times_zero_def np_complex_def zeros_like_def map_replicate_const)

lemma sum_list_upto: "(\<Sum>i\<leftarrow>[a..b]. g i) = (\<Sum>i = a..b. g i)"
  by (simp add: sum_list_distinct_conv_sum_set)

lemma upto_0_1: "[0..1::int] = [0, 1]"
  by (simp add: upto.simps)

lemma upto_0_2: "[0..2::int] = [0, 1, 2]"
  by (simp add: upto.simps)

subsection \<open>\<open>Cqq_std\<close> on any time value\<close>

lemma std_summand_elementwise:
  "np_mul (np_mul (phase_factor t omega i j) (cscalar (q_elem i j 1))) (cscalar (q_elem j i 1))
   = map_np (\<lambda>x. std_term x omega i j) t"
  by (simp only: phase_factor_elementwise np_mul_elementwise std_term_def)

lemma sumj_loop_elementwise:
  "sumj_loop t omega i js (map_np g t)
   = Inr (map_np (\<lambda>x. g x + (\<Sum>j\<leftarrow>js. std_term x omega i j)) t)"
proof (induction js arbitrary: g)
  case Nil
  show ?case by simp
next
  case (Cons j js)
  show ?case
    by (simp add: qij_default std_summand_elementwise np_add_elementwise Cons.IH add.assoc)
qed

lemma sumj_loop_from_zero:
  "0 \<le> i \<Longrightarrow> sumj_loop t omega i [0..i + 1] (Scalar 0)
     = Inr (map_np (\<lambda>x. \<Sum>j\<leftarrow>[0..i + 1]. std_term x omega i j) t)"
proof -
  assume "0 \<le> i"
  then have l: "[0..i + 1] = 0 # [1..i + 1]"
    by (simp add: upto_rec1)
  show ?thesis
    unfolding l
    by (simp add: qij_default std_summand_elementwise np_add_elementwise sumj_loop_elementwise)
qed

lemma std_loop_elementwise:
  "\<forall>i \<in> set is. 0 \<le> i \<Longrightarrow>
   std_loop t omega is (map_np G t, z)
   = Inr (map_np (\<lambda>x. G x + (\<Sum>i\<leftarrow>is. (\<Sum>j\<leftarrow>[0..i + 1]. std_term x omega i j)
                                       * complex_of_real (exp (- beta * Ei i omega False)))) t,
          z + (\<Sum>i\<leftarrow>is. exp (- beta * Ei i omega False)))"
proof (induction "is" arbitrary: G z)
  case Nil
  show ?case by simp
next
  case (Cons i "is")
  then have i: "0 \<le> i" and rest: "\<forall>i \<in> set is. 0 \<le> i"
    by simp_all
  show ?case
    by (simp add: sumj_loop_from_zero [OF i] np_mul_elementwise np_add_elementwise
          Cons.IH [OF rest] add.assoc)
qed

lemma std_loop_from_zero:
  "0 \<le> i_max \<Longrightarrow>
   std_loop t omega [0..i_max] (Scalar 0, 0)
   = Inr (map_np (\<lambda>x. \<Sum>i\<leftarrow>[0..i_max]. (\<Sum>j\<leftarrow>[0..i + 1]. std_term x omega i j)
                                       * complex_of_real (exp (- beta * Ei i omega False))) t,
          \<Sum>i\<leftarrow>[0..i_max]. exp (- beta * Ei i omega False))"
proof -
  assume "0 \<le> i_max"
  then have l: "[0..i_max] = 0 # [1..i_max]"
    by (simp add: upto_rec1)
  have pos: "\<forall>i \<in> set [1..i_max]. 0 \<le> i"
    by simp
  have s0: "sumj_loop t omega 0 [0..1] (Scalar 0)
            = Inr (map_np (\<lambda>x. \<Sum>j\<leftarrow>[0..1]. std_term x omega 0 j) t)"
    using sumj_loop_from_zero [of 0 t omega] by simp
  show ?thesis
    unfolding l
    by (simp add: s0 np_mul_elementwise np_add_elementwise std_loop_elementwise [OF pos])
qed

text \<open>
  For \<open>i_max \<ge> 1\<close> the call returns, on a scalar as on an array of any shape, the
  quotient of the two accumulated sums at every element of \<open>t\<close>.
\<close>

lemma Cqq_std_elementwise:
  "1 \<le> i_max \<Longrightarrow>
   Cqq_std t omega i_max
   = Inr (map_np (\<lambda>x. (\<Sum>i\<leftarrow>[0..i_max]. (\<Sum>j\<leftarrow>[0..i + 1]. std_term x omega i j)
                                       * complex_of_real (exp (- beta * Ei i omega False)))
                       / complex_of_real (\<Sum>i\<leftarrow>[0..i_max]. exp (- beta * Ei i omega False))) t)"
  by (simp add: Cqq_std_def std_loop_from_zero np_div_elementwise)

lemma Ei_E_ref: "Ei i omega False = E_ref i omega"
  by (simp add: Ei_def E_ref_def)

lemma std_term_reference:
  "0 < omega \<Longrightarrow>
   std_term t omega i j
   = complex_of_real omega *
     (exp (- \<i> * complex_of_real (E_ref i omega - E_ref j omega) * complex_of_real t
             / complex_of_real hbar)
      * complex_of_real (q_elem i j omega) * complex_of_real (q_elem j i omega))"
proof -
  assume w: "0 < omega"
  have "q_elem i j 1 * q_elem j i 1 = omega * (q_elem i j omega * q_elem j i omega)"
    using w by (simp add: q_elem_product)
  then have "complex_of_real (q_elem i j 1) * complex_of_real (q_elem j i 1)
        = complex_of_real omega * (complex_of_real (q_elem i j omega) * complex_of_real (q_elem j i omega))"
    by (simp only: of_real_mult [symmetric])
  then show ?thesis
    by (simp add: std_term_def Ei_E_ref mult.assoc mult.left_commute)
qed

text \<open>
  \<open>Cqq_std\<close> passes \<open>omega\<close> to \<open>Ei\<close> but not to \<open>qij\<close>: it returns \<open>omega\<close> times the
  reference sum, which is the reference sum for \<open>omega = 1\<close> only.
\<close>

lemma Cqq_std_omega_times_reference:
  assumes w: "0 < omega" and i: "1 \<le> i_max"
  shows "Cqq_std t omega i_max
         = Inr (map_np (\<lambda>x. complex_of_real omega * Cqq_reference x omega i_max) t)"
proof -
  have "(\<Sum>i = 0..i_max. (\<Sum>j = 0..i + 1. std_term x omega i j)
                          * complex_of_real (exp (- beta * E_ref i omega)))
        = complex_of_real omega *
          (\<Sum>i = 0..i_max. complex_of_real (exp (- beta * E_ref i omega)) *
             (\<Sum>j = 0..i + 1.
                exp (- \<i> * complex_of_real (E_ref i omega - E_ref j omega) * complex_of_real x
                       / complex_of_real hbar)
                * complex_of_real (q_elem i j omega) * complex_of_real (q_elem j i omega)))" for x
    by (simp only: std_term_reference [OF w] sum_distrib_left sum_distrib_right mult_ac)
  then show ?thesis
    by (simp add: Cqq_std_elementwise [OF i] sum_list_upto Ei_E_ref Cqq_reference_def)
qed

lemma Cqq_std_is_reference_at_1:
  "1 \<le> i_max \<Longrightarrow> Cqq_std t 1 i_max = Inr (map_np (\<lambda>x. Cqq_reference x 1 i_max) t)"
  using Cqq_std_omega_times_reference [of 1 i_max t] by simp

subsection \<open>The evaluators at \<open>i_max \<le> 0\<close>\<close>

text \<open>The loops never raise, whatever \<open>t\<close> is, provided the grid has two points.\<close>

lemma sumj_loop_returns: "\<exists>r. sumj_loop t omega i js sumj = Inr r"
  by (induction js arbitrary: sumj) (simp_all add: qij_default)

lemma std_loop_returns: "\<exists>r. std_loop t omega is acc = Inr r"
proof (induction "is" arbitrary: acc)
  case Nil
  show ?case by simp
next
  case (Cons i "is")
  obtain sumj where "sumj_loop t omega i [0..i + 1] (Scalar 0) = Inr sumj"
    using sumj_loop_returns by blast
  then show ?case
    using Cons.IH by simp
qed

lemma Cqq_std_nonpositive_i_max: "i_max \<le> 0 \<Longrightarrow> Cqq_std t omega i_max = Inr (zeros_like t)"
proof -
  assume i: "i_max \<le> 0"
  obtain r where "std_loop t omega [0..i_max] (Scalar 0, 0) = Inr r"
    using std_loop_returns by blast
  with i show ?thesis
    by (simp add: Cqq_std_def np_times_zero_zeros_like)
qed

lemma linspace_value:
  "2 \<le> L \<Longrightarrow>
   linspace a b L = Inr (map (\<lambda>k. a + real k * ((b - a) / real_of_int (L - 1))) [0..<nat L])"
  by (simp add: linspace_def)

lemma lterm_value:
  "2 \<le> length lgrid \<Longrightarrow>
   lterm lgrid i j
   = Inr ((\<Sum>l\<leftarrow>lgrid. exp (- l * (Ei j 1 False - Ei i 1 False))) * (lgrid ! 1 - lgrid ! 0) / beta)"
  by (auto simp: lterm_def np_getitem_def Let_def)

lemma kubo_j_loop_returns:
  "2 \<le> length lgrid \<Longrightarrow> \<exists>r. kubo_j_loop t lgrid i js rcqq = Inr r"
proof (induction js arbitrary: rcqq)
  case Nil
  show ?case by simp
next
  case (Cons j js)
  show ?case
    using Cons.IH [OF Cons.prems] by (simp add: lterm_value [OF Cons.prems] qij_default)
qed

lemma kubo_loop_returns:
  "2 \<le> length lgrid \<Longrightarrow> \<exists>r. kubo_loop t lgrid is acc = Inr r"
proof (induction "is" arbitrary: acc)
  case Nil
  show ?case by simp
next
  case (Cons i "is")
  obtain rcqq where "kubo_j_loop t lgrid i [0..i + 1] (fst acc) = Inr rcqq"
    using kubo_j_loop_returns [OF Cons.prems] by blast
  then show ?case
    using Cons.IH [OF Cons.prems] by simp
qed

lemma Cqq_kubo_nonpositive_i_max:
  "2 \<le> lgrid \<Longrightarrow> i_max \<le> 0 \<Longrightarrow> Cqq_kubo t omega i_max lgrid = Inr (zeros_like t)"
proof -
  assume l: "2 \<le> lgrid" and i: "i_max \<le> 0"
  define grid where "grid = map (\<lambda>k. 0 + real k * ((beta - 0) / real_of_int (lgrid - 1))) [0..<nat lgrid]"
  have lin: "linspace 0 beta lgrid = Inr grid"
    unfolding grid_def by (rule linspace_value [OF l])
  have "2 \<le> length grid"
    using l by (simp add: grid_def)
  then obtain r where "kubo_loop t grid [0..i_max] (Scalar 0, 0) = Inr r"
    using kubo_loop_returns by blast
  with i lin show ?thesis
    by (simp add: Cqq_kubo_def np_times_zero_zeros_like)
qed

text \<open>
  C3. For every time array \<open>t\<close>, of any shape, and \<open>i_max = 0\<close>, \<open>Cqq_std\<close> returns the array of
  zeros of \<open>t\<close>'s shape, and so does \<open>Cqq_kubo\<close> on every grid of at least two points, its
  default grid of \<open>1000\<close> points among them. (On a grid of one point \<open>Cqq_kubo\<close> raises,
  see C10.)
\<close>

theorem evaluators_zero_at_i_max_0:
  "Cqq_std t omega 0 = Inr (zeros_like t) \<and>
   (2 \<le> lgrid \<longrightarrow> Cqq_kubo t omega 0 lgrid = Inr (zeros_like t)) \<and>
   Cqq_kubo t omega 0 1000 = Inr (zeros_like t) \<and>
   zeros_like (Array sh xs) = Array sh (replicate (length xs) 0)"
  by (simp add: Cqq_std_nonpositive_i_max Cqq_kubo_nonpositive_i_max zeros_like_def)

theorem evaluators_zero_at_i_max_0_witness:
  "Cqq_std (Array [2, 2] [0, 1, 2, 3]) 1 0 = Inr (Array [2, 2] [0, 0, 0, 0]) \<and>
   (2::int) \<le> 2 \<and> Cqq_kubo (Array [2, 2] [0, 1, 2, 3]) 1 0 2 = Inr (Array [2, 2] [0, 0, 0, 0]) \<and>
   Cqq_kubo (Array [2, 2] [0, 1, 2, 3]) 1 0 1000 = Inr (Array [2, 2] [0, 0, 0, 0])"
  using evaluators_zero_at_i_max_0 [of "Array [2, 2] [0, 1, 2, 3]" 1 2 "[2, 2]" "[0, 1, 2, 3]"]
  by (simp add: zeros_like_def numeral_eq_Suc)

subsection \<open>\<open>Cqq_std\<close> at time zero\<close>

lemma std_term_zero: "std_term 0 omega i j = complex_of_real ((q_elem i j 1)\<^sup>2)"
  by (simp add: std_term_def q_elem_commute [of j i] power2_eq_square)

text \<open>
  C6. At \<open>t = 0\<close> the call \<open>Cqq_std(0, omega, i_max)\<close> returns a number with imaginary
  part zero and real part \<open>\<ge> 0\<close>. This holds for every \<open>omega\<close> and every \<open>i_max\<close>, so in
  particular for every \<open>omega > 0\<close> and \<open>i_max \<ge> 1\<close>.
\<close>

theorem Cqq_std_at_zero_real_nonneg:
  "\<exists>z. Cqq_std (Scalar 0) omega i_max = Inr (Scalar z) \<and> Im z = 0 \<and> 0 \<le> Re z"
proof (cases "1 \<le> i_max")
  case True
  define R where "R = (\<Sum>i = 0..i_max. (\<Sum>j = 0..i + 1. (q_elem i j 1)\<^sup>2) * exp (- beta * Ei i omega False))"
  define Z where "Z = (\<Sum>i = 0..i_max. exp (- beta * Ei i omega False))"
  have R: "0 \<le> R"
    unfolding R_def by (intro sum_nonneg mult_nonneg_nonneg) simp_all
  have Z: "0 \<le> Z"
    unfolding Z_def by (intro sum_nonneg) simp
  have "Cqq_std (Scalar 0) omega i_max = Inr (Scalar (complex_of_real R / complex_of_real Z))"
    unfolding Cqq_std_elementwise [OF True]
    by (simp add: sum_list_upto std_term_zero R_def Z_def)
  then have "Cqq_std (Scalar 0) omega i_max = Inr (Scalar (complex_of_real (R / Z)))"
    by simp
  moreover have "0 \<le> R / Z"
    using R Z by simp
  ultimately show ?thesis
    by (metis Im_complex_of_real Re_complex_of_real)
next
  case False
  then have "Cqq_std (Scalar 0) omega i_max = Inr (Scalar 0)"
    by (simp add: Cqq_std_nonpositive_i_max zeros_like_def)
  then show ?thesis
    by simp
qed

subsection \<open>\<open>Cqq_kubo\<close> on any time value\<close>

lemma kubo_summand_elementwise:
  "np_mul (np_mul (np_mul (cscalar c) (phase_factor t omega i j)) (cscalar a)) (cscalar b)
   = map_np (\<lambda>x. complex_of_real c
                  * exp (- \<i> * complex_of_real (Ei i omega False - Ei j omega False) * complex_of_real x
                           / complex_of_real hbar)
                  * complex_of_real a * complex_of_real b) t"
  by (simp only: phase_factor_elementwise np_mul_elementwise)

lemma kubo_j_loop_elementwise:
  "2 \<le> length lgrid \<Longrightarrow>
   kubo_j_loop t lgrid i js (map_np g t)
   = Inr (map_np (\<lambda>x. g x + (\<Sum>j\<leftarrow>js. kubo_term lgrid x i j)) t)"
proof (induction js arbitrary: g)
  case Nil
  show ?case by simp
next
  case (Cons j js)
  show ?case
    by (simp add: lterm_value [OF Cons.prems] qij_default kubo_summand_elementwise
          np_add_elementwise Cons.IH [OF Cons.prems] kubo_term_def add.assoc)
qed

lemma kubo_loop_elementwise:
  "2 \<le> length lgrid \<Longrightarrow>
   kubo_loop t lgrid is (map_np G t, z)
   = Inr (map_np (\<lambda>x. G x + (\<Sum>i\<leftarrow>is. \<Sum>j\<leftarrow>[0..i + 1]. kubo_term lgrid x i j)) t,
          z + (\<Sum>i\<leftarrow>is. exp (- beta * Ei i 1 False)))"
proof (induction "is" arbitrary: G z)
  case Nil
  show ?case by simp
next
  case (Cons i "is")
  show ?case
    by (simp add: kubo_j_loop_elementwise [OF Cons.prems] Cons.IH [OF Cons.prems] add.assoc)
qed

lemma kubo_loop_from_zero:
  assumes len: "2 \<le> length lgrid" and i: "0 \<le> i_max"
  shows "kubo_loop t lgrid [0..i_max] (Scalar 0, 0)
   = Inr (map_np (\<lambda>x. \<Sum>i\<leftarrow>[0..i_max]. \<Sum>j\<leftarrow>[0..i + 1]. kubo_term lgrid x i j) t,
          \<Sum>i\<leftarrow>[0..i_max]. exp (- beta * Ei i 1 False))"
proof -
  have l: "[0..i_max] = 0 # [1..i_max]"
    using i by (simp add: upto_rec1)
  have "kubo_j_loop t lgrid 0 (0 # [1]) (Scalar 0)
            = kubo_j_loop t lgrid 0 [1] (map_np (\<lambda>x. 0 + kubo_term lgrid x 0 0) t)"
    by (simp add: lterm_value [OF len] qij_default kubo_summand_elementwise
          np_add_elementwise kubo_term_def)
  also have "\<dots> = Inr (map_np (\<lambda>x. 0 + kubo_term lgrid x 0 0 + (\<Sum>j\<leftarrow>[1]. kubo_term lgrid x 0 j)) t)"
    by (rule kubo_j_loop_elementwise [OF len])
  finally have j0: "kubo_j_loop t lgrid 0 [0..1] (Scalar 0)
            = Inr (map_np (\<lambda>x. \<Sum>j\<leftarrow>[0..1]. kubo_term lgrid x 0 j) t)"
    by (simp add: upto_0_1)
  show ?thesis
    unfolding l by (simp add: j0 kubo_loop_elementwise [OF len])
qed

lemma Cqq_kubo_elementwise:
  assumes lin: "linspace 0 beta L = Inr grid" and len: "2 \<le> length grid" and i: "1 \<le> i_max"
  shows "Cqq_kubo t omega i_max L
   = Inr (map_np (\<lambda>x. (\<Sum>i\<leftarrow>[0..i_max]. \<Sum>j\<leftarrow>[0..i + 1]. kubo_term grid x i j)
                       / complex_of_real (\<Sum>i\<leftarrow>[0..i_max]. exp (- beta * Ei i 1 False))) t)"
  using i by (simp add: Cqq_kubo_def lin kubo_loop_from_zero [OF len] np_div_elementwise)

text \<open>On the grid of \<open>np.linspace(0, beta, L)\<close> the summand is the specification's.\<close>

lemma kubo_term_reference:
  assumes L: "2 \<le> L"
    and grid: "grid = map (\<lambda>k. 0 + real k * ((beta - 0) / real_of_int (L - 1))) [0..<nat L]"
  shows "kubo_term grid t i j
   = complex_of_real (lterm_ref 1 L i j) * complex_of_real (exp (- beta * E_ref i 1)) *
        exp (- \<i> * complex_of_real (E_ref i 1 - E_ref j 1) * complex_of_real t
               / complex_of_real hbar)
        * complex_of_real (q_elem i j 1) * complex_of_real (q_elem j i 1)"
proof -
  have n: "1 < nat L" "0 < nat L"
    using L by simp_all
  have d: "grid ! 1 - grid ! 0 = beta / real_of_int (L - 1)"
    using n by (simp add: grid)
  have "(\<Sum>l\<leftarrow>grid. exp (- l * (Ei j 1 False - Ei i 1 False)))
        = (\<Sum>k = 0..<nat L. exp (- (real k * (beta / real_of_int (L - 1))) * (E_ref j 1 - E_ref i 1)))"
    by (simp add: grid interv_sum_list_conv_sum_set_nat comp_def Ei_E_ref)
  then have "(\<Sum>l\<leftarrow>grid. exp (- l * (Ei j 1 False - Ei i 1 False))) * (grid ! 1 - grid ! 0) / beta
        = lterm_ref 1 L i j"
    unfolding d by (simp add: lterm_ref_def)
  then show ?thesis
    unfolding kubo_term_def by (simp add: Ei_E_ref)
qed

text \<open>
  \<open>Cqq_kubo\<close> never reads \<open>omega\<close>: whatever \<open>omega\<close> is passed, it returns the
  Kubo-transformed sum of \<open>omega = 1\<close>.
\<close>

lemma Cqq_kubo_is_reference_at_1:
  assumes L: "2 \<le> L" and i: "1 \<le> i_max"
  shows "Cqq_kubo t omega i_max L = Inr (map_np (\<lambda>x. Cqq_kubo_reference x 1 i_max L) t)"
proof -
  define grid where "grid = map (\<lambda>k. 0 + real k * ((beta - 0) / real_of_int (L - 1))) [0..<nat L]"
  have lin: "linspace 0 beta L = Inr grid"
    unfolding grid_def by (rule linspace_value [OF L])
  have len: "2 \<le> length grid"
    using L by (simp add: grid_def)
  show ?thesis
    unfolding Cqq_kubo_elementwise [OF lin len i] kubo_term_reference [OF L grid_def]
    by (simp add: sum_list_upto Cqq_kubo_reference_def Ei_E_ref)
qed

subsection \<open>The evaluators against the stated sum\<close>

lemma Cqq_reference_0_2_1:
  "Cqq_reference 0 2 1 = complex_of_real ((1/4 + 3/4 * exp (- 2)) / (1 + exp (- 2)))"
proof -
  have q: "q_elem 0 0 2 * q_elem 0 0 2 = 0" "q_elem 0 1 2 * q_elem 1 0 2 = 1/4"
      "q_elem 1 0 2 * q_elem 0 1 2 = 1/4" "q_elem 1 1 2 * q_elem 1 1 2 = 0"
      "q_elem 1 2 2 * q_elem 2 1 2 = 1/2"
    by (simp_all add: q_elem_product hbar_def m_def)
  have R: "(\<Sum>i\<leftarrow>[0..1]. exp (- beta * E_ref i 2) * (\<Sum>j\<leftarrow>[0..i + 1]. q_elem i j 2 * q_elem j i 2))
           = 1/4 + 3/4 * exp (- 2)"
    by (simp add: upto_0_1 upto_0_2 q E_ref_def beta_def hbar_def)
  have Z: "(\<Sum>i\<leftarrow>[0..1]. exp (- beta * E_ref i 2)) = 1 + exp (- 2)"
    by (simp add: upto_0_1 E_ref_def beta_def hbar_def)
  have "Cqq_reference 0 2 1
      = complex_of_real
          ((\<Sum>i\<leftarrow>[0..1]. exp (- beta * E_ref i 2) * (\<Sum>j\<leftarrow>[0..i + 1]. q_elem i j 2 * q_elem j i 2))
           / (\<Sum>i\<leftarrow>[0..1]. exp (- beta * E_ref i 2)))"
    by (simp add: Cqq_reference_def sum_list_upto mult.assoc)
  then show ?thesis
    by (simp only: R Z)
qed

text \<open>At \<open>omega = 1\<close> the phase of the pair \<open>(i, j)\<close> is a rotation by \<open>(j - i) t\<close>.\<close>

lemma phase_cis:
  "exp (- \<i> * complex_of_real (E_ref i 1 - E_ref j 1) * complex_of_real t / complex_of_real hbar)
   = cis (real_of_int (j - i) * t)"
proof -
  have "- \<i> * complex_of_real (E_ref i 1 - E_ref j 1) * complex_of_real t / complex_of_real hbar
        = \<i> * complex_of_real (real_of_int (j - i) * t)"
    by (simp add: E_ref_def hbar_def algebra_simps)
  then show ?thesis
    by (simp only: cis_conv_exp)
qed

lemma q_elem_pair_at_1:
  "complex_of_real (q_elem i j 1) * complex_of_real (q_elem j i 1)
      = complex_of_real (if \<bar>i - j\<bar> = 1 then \<bar>real_of_int (max i j)\<bar> / 2 else 0)"
proof -
  have "q_elem i j 1 * q_elem j i 1 = (if \<bar>i - j\<bar> = 1 then \<bar>real_of_int (max i j)\<bar> / 2 else 0)"
    by (simp add: q_elem_product hbar_def m_def)
  then show ?thesis
    by (simp only: of_real_mult [symmetric])
qed

lemma Cqq_reference_half_pi:
  "Cqq_reference (pi / 2) 1 1 = \<i> * complex_of_real ((1/2 + exp (- 1) / 2) / (1 + exp (- 1)))"
proof -
  have Z: "(\<Sum>i\<leftarrow>[0..1]. exp (- beta * E_ref i 1)) = 1 + exp (- 1)"
    by (simp add: upto_0_1 E_ref_def beta_def hbar_def)
  have "(\<Sum>i\<leftarrow>[0..1]. complex_of_real (exp (- beta * E_ref i 1)) *
          (\<Sum>j\<leftarrow>[0..i + 1].
             cis (real_of_int (j - i) * (pi / 2)) *
             complex_of_real (if \<bar>i - j\<bar> = 1 then \<bar>real_of_int (max i j)\<bar> / 2 else 0)))
        = \<i> * complex_of_real (1/2 + exp (- 1) / 2)"
    by (simp add: upto_0_1 upto_0_2 E_ref_def beta_def hbar_def algebra_simps)
  then show ?thesis
    unfolding Cqq_reference_def phase_cis
    by (simp only: mult.assoc q_elem_pair_at_1 sum_list_upto [symmetric] Z of_real_divide
          times_divide_eq_right)
qed

lemma lterm_ref_1_2: "lterm_ref 1 L 1 2 = lterm_ref 1 L 0 1"
  by (simp add: lterm_ref_def E_ref_def)

lemma Cqq_kubo_reference_half_pi:
  "Cqq_kubo_reference (pi / 2) 1 1 1000
   = \<i> * complex_of_real
       ((lterm_ref 1 1000 0 1 / 2 + exp (- 1) * lterm_ref 1 1000 0 1
         - exp (- 1) * lterm_ref 1 1000 1 0 / 2) / (1 + exp (- 1)))"
proof -
  have Z: "(\<Sum>i\<leftarrow>[0..1]. exp (- beta * E_ref i 1)) = 1 + exp (- 1)"
    by (simp add: upto_0_1 E_ref_def beta_def hbar_def)
  have "(\<Sum>i\<leftarrow>[0..1]. \<Sum>j\<leftarrow>[0..i + 1].
          complex_of_real (lterm_ref 1 1000 i j) *
          (complex_of_real (exp (- beta * E_ref i 1)) *
           (cis (real_of_int (j - i) * (pi / 2)) *
            complex_of_real (if \<bar>i - j\<bar> = 1 then \<bar>real_of_int (max i j)\<bar> / 2 else 0))))
        = \<i> * complex_of_real
            (lterm_ref 1 1000 0 1 / 2 + exp (- 1) * lterm_ref 1 1000 0 1
             - exp (- 1) * lterm_ref 1 1000 1 0 / 2)"
    by (simp add: upto_0_1 upto_0_2 E_ref_def beta_def hbar_def lterm_ref_1_2 algebra_simps)
  then show ?thesis
    unfolding Cqq_kubo_reference_def phase_cis
    by (simp only: mult.assoc q_elem_pair_at_1 sum_list_upto [symmetric] Z of_real_divide
          times_divide_eq_right)
qed

text \<open>
  Two bounds on the quadrature weights of the default grid: every term of the first
  sum is at most \<open>1\<close>, and every term \<open>exp x\<close> of the second is at least \<open>1 + x\<close>.
\<close>

lemma lterm_ref_0_1_upper: "lterm_ref 1 1000 0 1 \<le> 1000 / 999"
proof -
  have "(\<Sum>k = 0..<1000. exp (- (real k / 999))) \<le> (\<Sum>k = 0..<1000::nat. 1)"
    by (rule sum_mono) simp
  then have "(\<Sum>k = 0..<1000. exp (- (real k / 999))) \<le> 1000"
    by simp
  then show ?thesis
    by (simp add: lterm_ref_def E_ref_def beta_def hbar_def)
qed

lemma lterm_ref_1_0_lower: "1500 / 999 \<le> lterm_ref 1 1000 1 0"
proof -
  have "(\<Sum>k = 0..<1000. real k) = real (\<Sum> {0..<1000})"
    by simp
  also have "\<dots> = 499500"
    by (simp only: Sum_Ico_nat) simp
  finally have gauss: "(\<Sum>k = 0..<1000. real k) = 499500" .
  have "(\<Sum>k = 0..<1000. 1 + real k / 999) = 1000 + (\<Sum>k = 0..<1000. real k) / 999"
    by (simp add: sum.distrib sum_divide_distrib)
  also have "\<dots> = 1500"
    by (simp add: gauss)
  finally have low: "(\<Sum>k = 0..<1000. 1 + real k / 999) = 1500" .
  have "(\<Sum>k = 0..<1000. 1 + real k / 999) \<le> (\<Sum>k = 0..<1000. exp (real k / 999))"
    by (rule sum_mono) (rule exp_ge_add_one_self)
  then have "1500 \<le> (\<Sum>k = 0..<1000. exp (real k / 999))"
    by (simp only: low)
  then show ?thesis
    by (simp add: lterm_ref_def E_ref_def beta_def hbar_def)
qed

lemma kubo_differs_from_plain_sum:
  "Cqq_kubo_reference (pi / 2) 1 1 1000 \<noteq> Cqq_reference (pi / 2) 1 1"
proof -
  define e where "e = exp (- 1 :: real)"
  define lm where "lm = lterm_ref 1 1000 0 1"
  define lp where "lp = lterm_ref 1 1000 1 0"
  have e0: "0 < e"
    by (simp add: e_def)
  have "exp (1::real) * e = 1"
    by (simp add: e_def exp_minus)
  then have e3: "1 \<le> 3 * e"
    using exp_le mult_right_mono [of "exp (1::real)" 3 e] e0 by linarith
  have lm: "e * lm \<le> e * (1000 / 999)" "lm \<le> 1000 / 999"
    using lterm_ref_0_1_upper e0 by (simp_all add: lm_def)
  have lp: "e * (1500 / 999) \<le> e * lp"
    using lterm_ref_1_0_lower e0 by (simp add: lp_def)
  have less: "lm / 2 + e * lm - e * lp / 2 < 1/2 + e / 2"
    using lm lp e3 by linarith
  have "(lm / 2 + e * lm - e * lp / 2) / (1 + e) \<noteq> (1/2 + e / 2) / (1 + e)"
    using less e0 by (simp add: divide_cancel_right)
  then have "\<i> * complex_of_real ((lm / 2 + e * lm - e * lp / 2) / (1 + e))
             \<noteq> \<i> * complex_of_real ((1/2 + e / 2) / (1 + e))"
    by (simp only: mult_cancel_left of_real_eq_iff) simp
  then show ?thesis
    unfolding Cqq_kubo_reference_half_pi Cqq_reference_half_pi e_def lm_def lp_def .
qed

text \<open>
  C2, as amended. At \<open>omega = 1\<close>, the default, for every truncation order \<open>i_max \<ge> 1\<close> and
  every real time \<open>t\<close> (a scalar, or an array taken element by element): \<open>Cqq_std\<close>
  returns the reference eigenstate sum, over \<open>i\<close> from \<open>0\<close> to \<open>i_max\<close> and \<open>j\<close> from \<open>0\<close> to
  \<open>i + 1\<close>, of \<open>exp(-i (E\<^sub>i - E\<^sub>j) t / hbar) q\<^sub>i\<^sub>j q\<^sub>j\<^sub>i\<close> weighted by \<open>exp(-beta E\<^sub>i)\<close> and
  divided by \<open>Z\<close>; \<open>Cqq_kubo\<close>, on a grid of at least two points (its default \<open>1000\<close> among
  them), returns that sum with each term multiplied in addition by the quadrature
  weight \<open>lterm = (dl / beta) * sum over the grid points l of exp(-l (E\<^sub>j - E\<^sub>i))\<close>,
  \<open>dl = beta / (lgrid - 1)\<close>.
\<close>

theorem evaluators_at_default_omega:
  "(1 \<le> i_max \<longrightarrow> Cqq_std t 1 i_max = Inr (map_np (\<lambda>x. Cqq_reference x 1 i_max) t)) \<and>
   (1 \<le> i_max \<and> 2 \<le> lgrid \<longrightarrow>
      Cqq_kubo t 1 i_max lgrid = Inr (map_np (\<lambda>x. Cqq_kubo_reference x 1 i_max lgrid) t)) \<and>
   (1 \<le> i_max \<longrightarrow>
      Cqq_kubo t 1 i_max 1000 = Inr (map_np (\<lambda>x. Cqq_kubo_reference x 1 i_max 1000) t))"
  by (simp add: Cqq_std_is_reference_at_1 Cqq_kubo_is_reference_at_1)

theorem evaluators_at_default_omega_witness:
  "(1::int) \<le> 3 \<and> (2::int) \<le> 5 \<and>
   Cqq_std (Scalar 2) 1 3 = Inr (Scalar (Cqq_reference 2 1 3)) \<and>
   Cqq_kubo (Scalar 2) 1 3 5 = Inr (Scalar (Cqq_kubo_reference 2 1 3 5)) \<and>
   Cqq_kubo (Scalar 2) 1 3 1000 = Inr (Scalar (Cqq_kubo_reference 2 1 3 1000)) \<and>
   Cqq_std (Array [2] [0, 2]) 1 3 = Inr (Array [2] [Cqq_reference 0 1 3, Cqq_reference 2 1 3])"
  using evaluators_at_default_omega [of 3 "Scalar 2" 5]
    evaluators_at_default_omega [of 3 "Array [2] [0, 2]" 5]
  by simp

text \<open>
  C2, as stated, fails twice. \<open>Cqq_std(0, omega=2, i_max=1)\<close> is
  \<open>(1/2 + 3/2 e\<^sup>-\<^sup>2) / (1 + e\<^sup>-\<^sup>2)\<close>, twice the reference sum at \<open>omega = 2\<close>, since the matrix
  elements are taken at \<open>omega = 1\<close>. And \<open>Cqq_kubo\<close> on its default grid is not the stated
  sum even at \<open>omega = 1\<close>, for instance at \<open>t = pi/2\<close> and \<open>i_max = 1\<close>, since it carries the
  quadrature weights.
\<close>

theorem evaluators_miss_the_stated_sum:
  "Cqq_std (Scalar 0) 2 1 = Inr (Scalar (complex_of_real ((1/2 + 3/2 * exp (- 2)) / (1 + exp (- 2))))) \<and>
   Cqq_reference 0 2 1 = complex_of_real ((1/4 + 3/4 * exp (- 2)) / (1 + exp (- 2))) \<and>
   Cqq_std (Scalar 0) 2 1 \<noteq> Inr (Scalar (Cqq_reference 0 2 1)) \<and>
   Cqq_kubo (Scalar (pi / 2)) 1 1 1000 \<noteq> Inr (Scalar (Cqq_reference (pi / 2) 1 1))"
proof -
  define e where "e = exp (- 2 :: real)"
  have e: "0 < e"
    by (simp add: e_def)
  have twice: "2 * ((1/4 + 3/4 * e) / (1 + e)) = (1/2 + 3/2 * e) / (1 + e)"
    by simp
  have pos: "0 < (1/4 + 3/4 * e) / (1 + e)"
    using e by (intro divide_pos_pos add_pos_pos mult_pos_pos) simp_all
  have ref: "Cqq_reference 0 2 1 = complex_of_real ((1/4 + 3/4 * e) / (1 + e))"
    unfolding e_def by (rule Cqq_reference_0_2_1)
  have "Cqq_std (Scalar 0) 2 1 = Inr (map_np (\<lambda>x. complex_of_real 2 * Cqq_reference x 2 1) (Scalar 0))"
    by (rule Cqq_std_omega_times_reference) simp_all
  then have "Cqq_std (Scalar 0) 2 1 = Inr (Scalar (complex_of_real 2 * Cqq_reference 0 2 1))"
    by simp
  also have "complex_of_real 2 * Cqq_reference 0 2 1 = complex_of_real (2 * ((1/4 + 3/4 * e) / (1 + e)))"
    by (simp only: ref of_real_mult)
  finally have std: "Cqq_std (Scalar 0) 2 1 = Inr (Scalar (complex_of_real ((1/2 + 3/2 * e) / (1 + e))))"
    by (simp only: twice)
  have "(1/2 + 3/2 * e) / (1 + e) \<noteq> (1/4 + 3/4 * e) / (1 + e)"
    using pos twice by linarith
  then have ne: "Cqq_std (Scalar 0) 2 1 \<noteq> Inr (Scalar (Cqq_reference 0 2 1))"
    by (simp only: std ref sum.inject np.inject of_real_eq_iff) simp
  have "Cqq_kubo (Scalar (pi / 2)) 1 1 1000
        = Inr (map_np (\<lambda>x. Cqq_kubo_reference x 1 1 1000) (Scalar (pi / 2)))"
    by (rule Cqq_kubo_is_reference_at_1) simp_all
  then have kubo: "Cqq_kubo (Scalar (pi / 2)) 1 1 1000 \<noteq> Inr (Scalar (Cqq_reference (pi / 2) 1 1))"
    using kubo_differs_from_plain_sum by simp
  from std ref ne kubo show ?thesis
    unfolding e_def by blast
qed

subsection \<open>\<open>Cqq_kubo\<close> on a one-point grid\<close>

lemma lterm_short: "length lgrid \<le> 1 \<Longrightarrow> lterm lgrid i j = Inl IndexError"
  by (auto simp: lterm_def np_getitem_def Let_def)

lemma kubo_loop_short:
  "length lgrid \<le> 1 \<Longrightarrow> 0 \<le> i_max \<Longrightarrow> kubo_loop t lgrid [0..i_max] acc = Inl IndexError"
  by (subst upto_rec1, simp, simp, subst upto_rec1, simp, simp add: lterm_short)

text \<open>
  C10. With \<open>lgrid = 1\<close> the grid \<open>np.linspace(0, beta, 1)\<close> has the single point
  \<open>0\<close>. For every \<open>i_max \<ge> 0\<close> the first pass of the loops (\<open>i = 0\<close>, \<open>j = 0\<close>) reads
  \<open>lgrid[1]\<close>, so the call raises \<open>IndexError\<close> for every \<open>t\<close> and \<open>omega\<close>, also for
  \<open>i_max = 0\<close>, before the test \<open>i_max > 0\<close> is reached.
\<close>

theorem Cqq_kubo_one_point_grid_IndexError:
  "0 \<le> i_max \<Longrightarrow> Cqq_kubo t omega i_max 1 = Inl IndexError"
  by (simp add: Cqq_kubo_def linspace_def kubo_loop_short)

theorem Cqq_kubo_one_point_grid_IndexError_witness:
  "(0::int) \<le> 0 \<and> Cqq_kubo (Array [2] [0, 1]) 1 0 1 = Inl IndexError"
  using Cqq_kubo_one_point_grid_IndexError [of 0 "Array [2] [0, 1]" 1] by simp

subsection \<open>\<open>boltzweight\<close>\<close>

text \<open>
  C9. \<open>boltzweight(p, q, beta)\<close> never reads \<open>p\<close> and \<open>q\<close>: two calls with the same
  \<open>beta\<close> and the same module-level \<open>ps\<close> and \<open>qs\<close> return the same result whatever the
  first two arguments are, of whatever types. The result is
  \<open>exp(-beta * (ps\<^sup>2/2 + qs\<^sup>2/2))\<close> elementwise over the module-level arrays.
\<close>

theorem boltzweight_never_reads_p_q:
  "boltzweight g p q b = boltzweight g p' q' b \<and>
   (ps g = Some pv \<and> qs g = Some qv \<and> length pv = length qv \<longrightarrow>
      boltzweight g p q b = Inr (map2 (\<lambda>x y. exp (- b * (x\<^sup>2 / 2 + y\<^sup>2 / 2))) pv qv))"
  by (auto simp: boltzweight_def np_add_1d_def zip_map_map)

theorem boltzweight_never_reads_p_q_witness:
  "boltzweight \<lparr>ps = Some [1, 0], qs = Some [0, 1]\<rparr> (3::int) True 1
     = boltzweight \<lparr>ps = Some [1, 0], qs = Some [0, 1]\<rparr> ''p'' (0::real) 1 \<and>
   ps \<lparr>ps = Some [1, 0], qs = Some [0, 1]\<rparr> = Some [1, 0] \<and>
   qs \<lparr>ps = Some [1, 0], qs = Some [0, 1]\<rparr> = Some [0, 1] \<and>
   length [1, 0 :: real] = length [0, 1 :: real] \<and>
   boltzweight \<lparr>ps = Some [1, 0], qs = Some [0, 1]\<rparr> (3::int) True 1
     = Inr [exp (- 1 / 2), exp (- 1 / 2)]"
  using boltzweight_never_reads_p_q
    [of "\<lparr>ps = Some [1, 0], qs = Some [0, 1]\<rparr>" "3::int" True 1 "''p''" "0::real" "[1, 0]" "[0, 1]"]
  by (simp add: boltzweight_def np_add_1d_def)

end
